theory Spec2Isabelle
  imports Complex_Main
begin

section \<open>Python values shared by the pipelines\<close>

text \<open>
  A Python \<open>str\<close> is a sequence of Unicode code points, and \<open>len\<close>, slicing and
  \<open>in\<close> work on code points; text is therefore a list of code points. Block type
  identifiers, family names and the entries of a reasons trace are built from ASCII
  literals of the source only and are kept as \<open>string\<close>.

  Python floats are modelled by exact real numbers. The comparisons of the source are against
  short decimal literals (\<open>0.08\<close>, \<open>0.85\<close>, ...) and the operands are quotients of
  counts and pixel measures, where the exact and the rounded comparison agree. Where a
  double could differ from the exact value in a way that matters (a tie in rounding, a
  span of a few units in the last place), the text at the definition says so.

  Where the Python runtime consults Unicode tables that are no part of the repository, the
  model is exact on the following fragment: \<open>lower\<close>
  converts the upper-case letters below code point 256 and leaves every other code point
  unchanged (Python also converts cased letters of other scripts); the digit classes of
  \<open>int\<close> and of the regular expression class d are the ASCII digits (Python also
  accepts the decimal digits of other scripts). The white space of \<open>strip\<close>,
  \<open>split\<close> and the regular expression class s is Python's complete list.
\<close>

type_synonym ustr = "nat list"

definition u :: "string \<Rightarrow> ustr" where
  "u s = map of_char s"

datatype error = ValueError | OverflowError | ZeroDivisionError | AttributeError

definition digit_char :: "nat \<Rightarrow> char" where
  "digit_char d = ''0123456789'' ! (d mod 10)"

function show_nat :: "nat \<Rightarrow> string" where
  "show_nat n = (if n < 10 then [digit_char n] else show_nat (n div 10) @ [digit_char n])"
  by pat_completeness auto
termination
  by (relation "measure id") auto

declare show_nat.simps [simp del]

definition show_int :: "int \<Rightarrow> string" where
  \<comment> \<open>the decimal form an f-string gives an \<open>int\<close>\<close>
  "show_int i = (if i < 0 then CHR ''-'' # show_nat (nat (- i)) else show_nat (nat i))"

definition py_round :: "real \<Rightarrow> int" where
  \<comment> \<open>Python's \<open>round\<close> to an integer: halves go to the even neighbour\<close>
  "py_round q =
     (let f = \<lfloor>q\<rfloor>; d = q - of_int f
      in if d < 1 / 2 then f else if d > 1 / 2 then f + 1 else if even f then f else f + 1)"


subsection \<open>Text\<close>

definition py_isspace :: "nat \<Rightarrow> bool" where
  "py_isspace c =
     ((9 \<le> c \<and> c \<le> 13) \<or> (28 \<le> c \<and> c \<le> 32) \<or> c = 0x85 \<or> c = 0xA0 \<or> c = 0x1680
      \<or> (0x2000 \<le> c \<and> c \<le> 0x200A) \<or> c = 0x2028 \<or> c = 0x2029 \<or> c = 0x202F
      \<or> c = 0x205F \<or> c = 0x3000)"

definition py_strip :: "ustr \<Rightarrow> ustr" where
  "py_strip s = rev (dropWhile py_isspace (rev (dropWhile py_isspace s)))"

definition strip_chars :: "ustr \<Rightarrow> ustr \<Rightarrow> ustr" where
  \<comment> \<open>\<open>s.strip(chars)\<close>\<close>
  "strip_chars chars s =
     rev (dropWhile (\<lambda>c. c \<in> set chars) (rev (dropWhile (\<lambda>c. c \<in> set chars) s)))"

definition lstrip_chars :: "ustr \<Rightarrow> ustr \<Rightarrow> ustr" where
  "lstrip_chars chars s = dropWhile (\<lambda>c. c \<in> set chars) s"

definition lower_cp :: "nat \<Rightarrow> nat" where
  "lower_cp c =
     (if (65 \<le> c \<and> c \<le> 90) \<or> (192 \<le> c \<and> c \<le> 222 \<and> c \<noteq> 215) then c + 32 else c)"

definition py_lower :: "ustr \<Rightarrow> ustr" where
  "py_lower s = map lower_cp s"

definition startswith :: "ustr \<Rightarrow> ustr \<Rightarrow> bool" where
  "startswith s p = (take (length p) s = p)"

definition endswith :: "ustr \<Rightarrow> ustr \<Rightarrow> bool" where
  "endswith s p = (length p \<le> length s \<and> drop (length s - length p) s = p)"

fun py_in :: "ustr \<Rightarrow> ustr \<Rightarrow> bool" where
  \<comment> \<open>\<open>needle in hay\<close>\<close>
  "py_in needle [] = (needle = [])"
| "py_in needle (c # cs) = (startswith (c # cs) needle \<or> py_in needle cs)"

fun count_from :: "ustr \<Rightarrow> nat \<Rightarrow> ustr \<Rightarrow> nat" where
  \<comment> \<open>occurrences that do not overlap, left to right; the number counts characters of a
      match still to be skipped\<close>
  "count_from needle k [] = 0"
| "count_from needle (Suc k) (c # cs) = count_from needle k cs"
| "count_from needle 0 (c # cs) =
     (if startswith (c # cs) needle then 1 + count_from needle (length needle - 1) cs
      else count_from needle 0 cs)"

definition py_count :: "ustr \<Rightarrow> ustr \<Rightarrow> nat" where
  \<comment> \<open>\<open>hay.count(needle)\<close> for a needle that is not empty\<close>
  "py_count needle hay = count_from needle 0 hay"

fun replace_from :: "ustr \<Rightarrow> ustr \<Rightarrow> nat \<Rightarrow> ustr \<Rightarrow> ustr" where
  "replace_from old new k [] = []"
| "replace_from old new (Suc k) (c # cs) = replace_from old new k cs"
| "replace_from old new 0 (c # cs) =
     (if startswith (c # cs) old then new @ replace_from old new (length old - 1) cs
      else c # replace_from old new 0 cs)"

definition py_replace :: "ustr \<Rightarrow> ustr \<Rightarrow> ustr \<Rightarrow> ustr" where
  \<comment> \<open>\<open>s.replace(old, new)\<close> for an \<open>old\<close> that is not empty\<close>
  "py_replace old new s = replace_from old new 0 s"

fun split_ws :: "ustr \<Rightarrow> ustr \<Rightarrow> ustr list" where
  \<comment> \<open>\<open>s.split()\<close>; the first argument is the word being read\<close>
  "split_ws cur [] = (if cur = [] then [] else [cur])"
| "split_ws cur (c # cs) =
     (if py_isspace c then (if cur = [] then split_ws [] cs else cur # split_ws [] cs)
      else split_ws (cur @ [c]) cs)"

definition py_split :: "ustr \<Rightarrow> ustr list" where
  "py_split s = split_ws [] s"

fun split_at :: "nat \<Rightarrow> ustr \<Rightarrow> ustr \<Rightarrow> ustr list" where
  \<comment> \<open>\<open>s.split(sep)\<close> for a separator of one character\<close>
  "split_at sep cur [] = [cur]"
| "split_at sep cur (c # cs) =
     (if c = sep then cur # split_at sep [] cs else split_at sep (cur @ [c]) cs)"

definition join :: "ustr \<Rightarrow> ustr list \<Rightarrow> ustr" where
  \<comment> \<open>\<open>sep.join(parts)\<close>\<close>
  "join sep parts = (case parts of [] \<Rightarrow> [] | p # ps \<Rightarrow> p @ concat (map (\<lambda>q. sep @ q) ps))"

definition is_digit :: "nat \<Rightarrow> bool" where
  "is_digit c = (48 \<le> c \<and> c \<le> 57)"

definition digit_val :: "nat \<Rightarrow> nat option" where
  "digit_val c =
     (if 48 \<le> c \<and> c \<le> 57 then Some (c - 48)
      else if 97 \<le> c \<and> c \<le> 122 then Some (c - 87)
      else if 65 \<le> c \<and> c \<le> 90 then Some (c - 55)
      else None)"

fun digits_value :: "nat \<Rightarrow> nat \<Rightarrow> bool \<Rightarrow> ustr \<Rightarrow> nat option" where
  \<comment> \<open>digits in the base, single underscores allowed between two digits; the flag says
      that the character before was a digit\<close>
  "digits_value base acc prev [] = (if prev then Some acc else None)"
| "digits_value base acc prev (c # cs) =
     (if c = 95 then (if prev then digits_value base acc False cs else None)
      else (case digit_val c of
              None \<Rightarrow> None
            | Some d \<Rightarrow> if d < base then digits_value base (acc * base + d) True cs else None))"

definition py_int :: "nat \<Rightarrow> ustr \<Rightarrow> int option" where
  \<comment> \<open>\<open>int(s, base)\<close> for base 10 or 16; \<open>None\<close> is the \<open>ValueError\<close>\<close>
  "py_int base s =
     (let s = py_strip s;
          neg = (s \<noteq> [] \<and> hd s = 45);
          s = (if s \<noteq> [] \<and> (hd s = 43 \<or> hd s = 45) then tl s else s);
          pre = (base = 16 \<and> (startswith s (u ''0x'') \<or> startswith s (u ''0X'')));
          s = (if pre then drop 2 s else s);
          s = (if pre \<and> startswith s (u ''_'') then drop 1 s else s)
      in map_option (\<lambda>n. if neg then - int n else int n) (digits_value base 0 False s))"

text \<open>
  \<open>float(s)\<close> is the runtime's parser with its IEEE rounding; the functions that call it
  take it as a parameter. Its result is a finite number, an infinity or a NaN, and
  \<open>None\<close> stands for the \<open>ValueError\<close>.
\<close>

datatype pyfloat = Fin real | PInf | NInf | NaN

type_synonym float_parser = "ustr \<Rightarrow> pyfloat option"

definition int_of_float :: "pyfloat option \<Rightarrow> error + int" where
  \<comment> \<open>\<open>int(float(s))\<close>: truncation towards zero\<close>
  "int_of_float f =
     (case f of
        None \<Rightarrow> Inl ValueError
      | Some (Fin x) \<Rightarrow> Inr (if x \<ge> 0 then \<lfloor>x\<rfloor> else \<lceil>x\<rceil>)
      | Some NaN \<Rightarrow> Inl ValueError
      | Some PInf \<Rightarrow> Inl OverflowError
      | Some NInf \<Rightarrow> Inl OverflowError)"

definition plain_float :: float_parser where
  \<comment> \<open>\<open>float\<close> on the tokens of one to fifteen ASCII digits, whose value a double holds
      exactly; used to evaluate concrete inputs made of such tokens\<close>
  "plain_float s =
     (if s \<noteq> [] \<and> length s \<le> 15 \<and> list_all is_digit s
      then map_option (\<lambda>n. Fin (real n)) (digits_value 10 0 False s) else None)"

definition bind :: "error + 'a \<Rightarrow> ('a \<Rightarrow> error + 'b) \<Rightarrow> error + 'b" where
  "bind m f = (case m of Inl e \<Rightarrow> Inl e | Inr x \<Rightarrow> f x)"

fun insert_desc :: "('a \<Rightarrow> int) \<Rightarrow> 'a \<Rightarrow> 'a list \<Rightarrow> 'a list" where
  "insert_desc k x [] = [x]"
| "insert_desc k x (y # ys) = (if k y < k x then x # y # ys else y # insert_desc k x ys)"

definition sorted_desc :: "('a \<Rightarrow> int) \<Rightarrow> 'a list \<Rightarrow> 'a list" where
  \<comment> \<open>\<open>sorted(xs, key=k, reverse=True)\<close>: stable, equal keys keep their order\<close>
  "sorted_desc k xs = foldl (\<lambda>acc x. insert_desc k x acc) [] xs"

section \<open>The Semantic Classifier (classifier.py)\<close>

subsection \<open>Signals\<close>

record signals =
  text_len :: nat
  link_density :: real
  above_the_fold :: bool
  near_bottom :: bool
  near_top :: bool
  section_height :: real
  has_h1 :: bool
  has_cta_phrase :: bool
  has_price_pattern :: bool
  has_faq_pattern :: bool
  has_quote_pattern :: bool
  has_rating_pattern :: bool
  has_case_pattern :: bool
  has_integrations_pattern :: bool
  has_compare_pattern :: bool
  has_use_cases_pattern :: bool
  has_step_pattern :: bool
  has_support_pattern :: bool
  has_contact_pattern :: bool
  has_footer_pattern :: bool
  has_footer_tag :: bool
  has_form :: bool
  has_accordion_pattern :: bool
  has_stats_pattern :: bool
  has_table :: bool
  has_toggle_pattern :: bool
  grid_like :: bool
  repeat_items :: bool
  has_media :: bool
  has_points :: bool
  two_column_like :: bool
  img_count :: int
  card_count :: int
  near_hero :: bool

subsection \<open>Scorers\<close>

text \<open>
  \<open>_score\<close> appends \<open>reason:points\<close> to the reasons list it is handed and returns the
  points. The list is mutated in place in the source; here it is passed and returned.
\<close>

definition score :: "string \<Rightarrow> int \<Rightarrow> string list \<Rightarrow> int \<times> string list" where
  "score reason points reasons = (points, reasons @ [reason @ '':'' @ show_int points])"

text \<open>
  The two statement forms of the scorers, on the pair of the running score and the reasons:
  \<open>if c: score += _score(reason, points, reasons)\<close> and
  \<open>if c: score -= _score(reason, points, reasons)\<close>.
\<close>

definition plus_score :: "bool \<Rightarrow> string \<Rightarrow> int \<Rightarrow> int \<times> string list \<Rightarrow> int \<times> string list" where
  "plus_score c reason points st =
     (if c then (case score reason points (snd st) of (p, rs) \<Rightarrow> (fst st + p, rs)) else st)"

definition minus_score :: "bool \<Rightarrow> string \<Rightarrow> int \<Rightarrow> int \<times> string list \<Rightarrow> int \<times> string list" where
  "minus_score c reason points st =
     (if c then (case score reason points (snd st) of (p, rs) \<Rightarrow> (fst st - p, rs)) else st)"

definition score_hero :: "signals \<Rightarrow> string list \<Rightarrow> int \<times> string list" where
  "score_hero sg reasons =
     (let st = (0, reasons);
          st = plus_score (above_the_fold sg) ''above_the_fold'' 20 st;
          st = plus_score (has_h1 sg) ''has_h1'' 25 st;
          st = plus_score (has_cta_phrase sg) ''cta_phrase'' 15 st;
          st = minus_score (link_density sg > 8 / 100) ''high_link_density'' (- 25) st;
          st = minus_score (has_price_pattern sg) ''price_pattern'' (- 15) st
      in st)"

definition score_logo_cloud :: "signals \<Rightarrow> string list \<Rightarrow> int \<times> string list" where
  "score_logo_cloud sg reasons =
     (let st = (0, reasons);
          st = plus_score (img_count sg \<ge> 6) ''img_count'' 25 st;
          st = plus_score (text_len sg < 200) ''low_text'' 10 st;
          st = plus_score (near_hero sg) ''near_hero'' 10 st
      in st)"

definition score_testimonials :: "signals \<Rightarrow> string list \<Rightarrow> int \<times> string list" where
  "score_testimonials sg reasons =
     (let st = (0, reasons);
          st = plus_score (has_quote_pattern sg) ''quote_pattern'' 20 st;
          st = plus_score (grid_like sg) ''grid_like'' 15 st;
          st = plus_score (card_count sg \<ge> 3 \<and> img_count sg \<ge> 3) ''card_like'' 10 st
      in st)"

definition score_ratings :: "signals \<Rightarrow> string list \<Rightarrow> int \<times> string list" where
  "score_ratings sg reasons =
     plus_score (has_rating_pattern sg) ''rating_pattern'' 30 (0, reasons)"

definition score_case_studies :: "signals \<Rightarrow> string list \<Rightarrow> int \<times> string list" where
  "score_case_studies sg reasons =
     (let st = (0, reasons);
          st = plus_score (has_case_pattern sg) ''case_pattern'' 20 st;
          st = plus_score (grid_like sg) ''grid_like'' 10 st;
          st = plus_score (card_count sg \<ge> 3 \<and> img_count sg \<ge> 2) ''card_like'' 10 st
      in st)"

definition score_feature_grid :: "signals \<Rightarrow> string list \<Rightarrow> int \<times> string list" where
  "score_feature_grid sg reasons =
     (let st = (0, reasons);
          st = plus_score (grid_like sg) ''grid_like'' 25 st;
          st = plus_score (repeat_items sg) ''repeat_items'' 15 st;
          st = plus_score (card_count sg \<ge> 3) ''card_count'' 15 st
      in st)"

definition score_cards_grid :: "signals \<Rightarrow> string list \<Rightarrow> int \<times> string list" where
  "score_cards_grid sg reasons =
     (let st = (0, reasons);
          st = plus_score (grid_like sg) ''grid_like'' 20 st;
          st = plus_score (card_count sg \<ge> 3) ''card_count'' 25 st;
          st = plus_score (img_count sg \<ge> 2) ''img_count'' 10 st;
          st = plus_score (repeat_items sg) ''repeat_items'' 10 st
      in st)"

definition score_feature_media :: "signals \<Rightarrow> string list \<Rightarrow> int \<times> string list" where
  "score_feature_media sg reasons =
     (let st = (0, reasons);
          st = plus_score (has_media sg) ''media'' 25 st;
          st = plus_score (has_points sg) ''points'' 15 st;
          st = plus_score (two_column_like sg) ''two_column'' 10 st
      in st)"

definition score_steps :: "signals \<Rightarrow> string list \<Rightarrow> int \<times> string list" where
  "score_steps sg reasons =
     (let st = (0, reasons);
          st = plus_score (has_step_pattern sg) ''step_pattern'' 20 st;
          st = plus_score (repeat_items sg) ''repeat_items'' 10 st
      in st)"

definition score_stats :: "signals \<Rightarrow> string list \<Rightarrow> int \<times> string list" where
  "score_stats sg reasons =
     plus_score (has_stats_pattern sg) ''stats_pattern'' 25 (0, reasons)"

definition score_integrations :: "signals \<Rightarrow> string list \<Rightarrow> int \<times> string list" where
  "score_integrations sg reasons =
     (let st = (0, reasons);
          st = plus_score (has_integrations_pattern sg) ''integrations_pattern'' 20 st;
          st = plus_score (grid_like sg) ''grid_like'' 10 st
      in st)"

definition score_comparison :: "signals \<Rightarrow> string list \<Rightarrow> int \<times> string list" where
  "score_comparison sg reasons =
     (let st = (0, reasons);
          st = plus_score (has_table sg) ''table'' 25 st;
          st = plus_score (has_compare_pattern sg) ''compare_pattern'' 10 st
      in st)"

definition score_use_cases :: "signals \<Rightarrow> string list \<Rightarrow> int \<times> string list" where
  "score_use_cases sg reasons =
     plus_score (has_use_cases_pattern sg) ''use_cases_pattern'' 15 (0, reasons)"

definition score_pricing :: "signals \<Rightarrow> string list \<Rightarrow> int \<times> string list" where
  "score_pricing sg reasons =
     (let st = (0, reasons);
          st = plus_score (has_price_pattern sg) ''price_pattern'' 30 st;
          st = plus_score (grid_like sg) ''grid_like'' 15 st;
          st = plus_score (has_toggle_pattern sg) ''toggle'' 15 st
      in st)"

definition score_plan_compare :: "signals \<Rightarrow> string list \<Rightarrow> int \<times> string list" where
  "score_plan_compare sg reasons =
     (let st = (0, reasons);
          st = plus_score (has_table sg) ''table'' 25 st;
          st = plus_score (has_compare_pattern sg) ''compare_pattern'' 15 st
      in st)"

definition score_faq :: "signals \<Rightarrow> string list \<Rightarrow> int \<times> string list" where
  "score_faq sg reasons =
     (let st = (0, reasons);
          st = plus_score (has_faq_pattern sg) ''faq'' 20 st;
          st = plus_score (has_accordion_pattern sg) ''accordion'' 25 st
      in st)"

definition score_support :: "signals \<Rightarrow> string list \<Rightarrow> int \<times> string list" where
  "score_support sg reasons =
     (let st = (0, reasons);
          st = plus_score (has_support_pattern sg) ''support'' 20 st;
          st = plus_score (link_density sg > 4 / 100) ''link_density'' 10 st
      in st)"

definition score_contact :: "signals \<Rightarrow> string list \<Rightarrow> int \<times> string list" where
  "score_contact sg reasons =
     (let st = (0, reasons);
          st = plus_score (has_contact_pattern sg) ''contact'' 20 st;
          st = plus_score (has_form sg) ''form'' 25 st
      in st)"

definition score_footer :: "signals \<Rightarrow> string list \<Rightarrow> int \<times> string list" where
  "score_footer sg reasons =
     (let st = (0, reasons);
          st = plus_score (has_footer_tag sg) ''footer_tag'' 60 st;
          st = plus_score (near_bottom sg) ''near_bottom'' 25 st;
          st = plus_score (link_density sg > 8 / 100) ''link_density'' 25 st;
          st = plus_score (has_footer_pattern sg) ''footer_pattern'' 15 st
      in st)"

definition score_navbar :: "signals \<Rightarrow> string list \<Rightarrow> int \<times> string list" where
  "score_navbar sg reasons =
     (let st = (0, reasons);
          st = plus_score (near_top sg) ''near_top'' 20 st;
          st = plus_score (link_density sg > 5 / 100) ''link_density'' 15 st;
          st = plus_score (section_height sg < 160) ''short_height'' 10 st
      in st)"

definition score_announcement :: "signals \<Rightarrow> string list \<Rightarrow> int \<times> string list" where
  "score_announcement sg reasons =
     (let st = (0, reasons);
          st = plus_score (near_top sg \<and> section_height sg < 80) ''banner_height'' 30 st;
          st = plus_score (text_len sg < 120) ''short_text'' 10 st
      in st)"

text \<open>A signal set in which no signal fires, used to build concrete inputs.\<close>

definition no_signals :: signals where
  "no_signals = \<lparr> text_len = 200, link_density = 0, above_the_fold = False,
     near_bottom = False, near_top = False, section_height = 400, has_h1 = False,
     has_cta_phrase = False, has_price_pattern = False, has_faq_pattern = False,
     has_quote_pattern = False, has_rating_pattern = False, has_case_pattern = False,
     has_integrations_pattern = False, has_compare_pattern = False,
     has_use_cases_pattern = False, has_step_pattern = False, has_support_pattern = False,
     has_contact_pattern = False, has_footer_pattern = False, has_footer_tag = False,
     has_form = False, has_accordion_pattern = False, has_stats_pattern = False,
     has_table = False, has_toggle_pattern = False, grid_like = False, repeat_items = False,
     has_media = False, has_points = False, two_column_like = False, img_count = 0,
     card_count = 0, near_hero = False \<rparr>"



subsection \<open>Regular expressions of the classifier\<close>

fun re_search :: "(ustr \<Rightarrow> nat option) \<Rightarrow> ustr \<Rightarrow> bool" where
  \<comment> \<open>\<open>bool(re.search(p, text))\<close>, for a pattern given by the length of its match at the
      head of a text\<close>
  "re_search m [] = (m [] \<noteq> None)"
| "re_search m (c # cs) = (m (c # cs) \<noteq> None \<or> re_search m cs)"

fun findall_from :: "(ustr \<Rightarrow> nat option) \<Rightarrow> nat \<Rightarrow> ustr \<Rightarrow> nat" where
  \<comment> \<open>\<open>len(re.findall(p, text))\<close> for a pattern that matches no empty text: matches are
      taken left to right and do not overlap; the number counts characters of a match still
      to be skipped\<close>
  "findall_from m k [] = 0"
| "findall_from m (Suc k) (c # cs) = findall_from m k cs"
| "findall_from m 0 (c # cs) =
     (case m (c # cs) of
        None \<Rightarrow> findall_from m 0 cs
      | Some n \<Rightarrow> 1 + findall_from m (n - 1) cs)"

definition first_prefix :: "ustr list \<Rightarrow> ustr \<Rightarrow> nat option" where
  \<comment> \<open>an alternation of literals: the first alternative that the text starts with\<close>
  "first_prefix alts s = map_option length (find (\<lambda>a. startswith s a) alts)"

definition url_scheme_match :: "ustr \<Rightarrow> nat option" where
  \<comment> \<open>\<open>https?://\<close>\<close>
  "url_scheme_match s = first_prefix [u ''https://'', u ''http://''] s"

definition currency_match :: "ustr \<Rightarrow> nat option" where
  \<comment> \<open>a dollar, yen or euro sign, at most one white space, then digits\<close>
  "currency_match s =
     (case s of
        [] \<Rightarrow> None
      | c # cs \<Rightarrow>
          if c = 36 \<or> c = 0xA5 \<or> c = 0x20AC
          then
            let r = (if cs \<noteq> [] \<and> py_isspace (hd cs) then tl cs else cs);
                n = length (takeWhile is_digit r)
            in if n = 0 then None else Some (1 + (length cs - length r) + n)
          else None)"

definition price_match :: "ustr list \<Rightarrow> ustr \<Rightarrow> nat option" where
  "price_match words s =
     (case currency_match s of Some n \<Rightarrow> Some n | None \<Rightarrow> first_prefix words s)"

definition classifier_price_words :: "ustr list" where
  \<comment> \<open>\<open>/mo|/yr|per month|monthly\<close> and the two Chinese words for yearly and monthly payment\<close>
  "classifier_price_words =
     [u ''/mo'', u ''/yr'', u ''per month'', u ''monthly'', [0x5E74, 0x4ED8], [0x6708, 0x4ED8]]"

definition has_price_pattern_of :: "ustr \<Rightarrow> bool" where
  \<comment> \<open>\<open>_has_price_pattern\<close>\<close>
  "has_price_pattern_of text = re_search (price_match classifier_price_words) text"

definition stats_match :: "ustr \<Rightarrow> nat option" where
  \<comment> \<open>digits followed by a percent sign, an x or a k, or by a comma and digits\<close>
  "stats_match s =
     (let n = length (takeWhile is_digit s); r = drop n s
      in if n = 0 then None
         else (case r of
                 [] \<Rightarrow> None
               | c # cs \<Rightarrow>
                   if c = 37 \<or> c = 120 \<or> c = 107 then Some (n + 1)
                   else if c = 44 \<and> length (takeWhile is_digit cs) > 0
                   then Some (n + 1 + length (takeWhile is_digit cs))
                   else None))"

definition has_stats_pattern_of :: "ustr \<Rightarrow> bool" where
  \<comment> \<open>\<open>_has_stats_pattern\<close>\<close>
  "has_stats_pattern_of text = re_search stats_match text"

subsection \<open>Building the signals\<close>

text \<open>
  The module-level list \<open>CTA_PHRASES\<close> is the only state outside its arguments that the
  classifier reads; it is carried as the classifier's global state.
\<close>

record globals =
  CTA_PHRASES :: "ustr list"

definition initial_globals :: globals where
  "initial_globals = \<lparr> CTA_PHRASES =
     [u ''get started'', u ''book a demo'', u ''request demo'', u ''contact'', u ''contact us'',
      u ''buy now'', u ''start free'', u ''free trial'',
      [0x7ACB, 0x5373], [0x54A8, 0x8BE2], [0x9884, 0x7EA6]] \<rparr>"

text \<open>
  The section handed to the classifier carries its layout box, of which \<open>top\<close> and
  \<open>height\<close> are read. The context is the dictionary that \<open>map_sections\<close> builds; a key
  that is absent reads as the default of the source (empty text, index 0, total 1, viewport
  height 900, \<open>False\<close>, 0).
\<close>

record layout_box =
  layout_top :: real
  layout_height :: real

record page_context =
  ctx_text :: ustr
  ctx_index :: int
  ctx_total :: int
  ctx_viewport_height :: real
  ctx_grid_like :: bool
  ctx_repeat_items :: bool
  ctx_has_media :: bool
  ctx_has_points :: bool
  ctx_two_column_like :: bool
  ctx_img_count :: int
  ctx_card_count :: int
  ctx_near_hero :: bool
  ctx_has_h1 :: bool
  ctx_has_cta :: bool
  ctx_has_footer_tag :: bool

definition build_signals :: "globals \<Rightarrow> layout_box \<Rightarrow> page_context \<Rightarrow> signals" where
  "build_signals g layout ctx =
     (let text = py_lower (ctx_text ctx);
          viewport_height = ctx_viewport_height ctx;
          index = ctx_index ctx;
          total = ctx_total ctx;
          text_len = length text;
          links = findall_from url_scheme_match 0 text;
          link_density = real links / real (max text_len 1)
      in \<lparr> text_len = text_len,
           link_density = link_density,
           above_the_fold = (layout_top layout < viewport_height * (9 / 10)),
           near_bottom = (index \<ge> max (total - 2) 0),
           near_top = (index = 0),
           section_height = layout_height layout,
           has_h1 = ctx_has_h1 ctx,
           has_cta_phrase = list_ex (\<lambda>phrase. py_in phrase text) (CTA_PHRASES g),
           has_price_pattern = has_price_pattern_of text,
           has_faq_pattern = (py_in (u ''faq'') text \<or> py_in [0x5E38, 0x89C1, 0x95EE, 0x9898] text
                              \<or> py_in (u ''question'') text),
           has_quote_pattern = (py_in [34] text \<or> py_in [0x201C] text \<or> py_in (u ''testimonial'') text),
           has_rating_pattern = (py_in [0x2605, 0x2605, 0x2605, 0x2605, 0x2605] text
                                 \<or> py_in (u ''trustpilot'') text \<or> py_in (u ''reviews'') text),
           has_case_pattern = (py_in (u ''case study'') text \<or> py_in [0x6848, 0x4F8B] text),
           has_integrations_pattern = (py_in (u ''integration'') text \<or> py_in [0x96C6, 0x6210] text),
           has_compare_pattern = (py_in (u ''comparison'') text \<or> py_in (u ''compare'') text),
           has_use_cases_pattern = (py_in (u ''use case'') text \<or> py_in [0x573A, 0x666F] text),
           has_step_pattern = (py_in (u ''step'') text \<or> py_in [0x6B65, 0x9AA4] text
                               \<or> py_in [0x6D41, 0x7A0B] text),
           has_support_pattern = (py_in (u ''docs'') text \<or> py_in (u ''documentation'') text
                                  \<or> py_in [0x652F, 0x6301] text),
           has_contact_pattern = (py_in (u ''contact'') text \<or> py_in [0x8054, 0x7CFB, 0x6211, 0x4EEC] text),
           has_footer_pattern = (py_in (u ''privacy'') text \<or> py_in (u ''terms'') text \<or> py_in [0xA9] text),
           has_footer_tag = ctx_has_footer_tag ctx,
           has_form = (py_in (u ''form'') text \<or> py_in (u ''email'') text \<or> py_in (u ''phone'') text),
           has_accordion_pattern = py_in (u ''accordion'') text,
           has_stats_pattern = has_stats_pattern_of text,
           has_table = py_in (u ''table'') text,
           has_toggle_pattern = (py_in (u ''monthly'') text \<or> py_in (u ''yearly'') text),
           grid_like = ctx_grid_like ctx,
           repeat_items = ctx_repeat_items ctx,
           has_media = ctx_has_media ctx,
           has_points = ctx_has_points ctx,
           two_column_like = ctx_two_column_like ctx,
           img_count = ctx_img_count ctx,
           card_count = ctx_card_count ctx,
           near_hero = ctx_near_hero ctx \<rparr>)"

subsection \<open>Classification\<close>

record candidate =
  cand_type :: string
  cand_score :: int
  cand_reasons :: "string list"
  cand_family :: string

record classification =
  cls_candidates :: "candidate list"
  cls_family :: string
  cls_signals :: signals

definition add_candidate ::
  "string \<Rightarrow> int \<times> string list \<Rightarrow> string \<Rightarrow> candidate list \<Rightarrow> candidate list" where
  \<comment> \<open>the scorer has run on a fresh reasons list; its score and that list go into the
      candidate\<close>
  "add_candidate block_type scored family candidates =
     candidates @ [\<lparr> cand_type = block_type, cand_score = fst scored,
                      cand_reasons = snd scored, cand_family = family \<rparr>]"

definition all_candidates :: "signals \<Rightarrow> candidate list" where
  "all_candidates sg =
     (let cs = [];
          cs = add_candidate ''HeroCentered.v1'' (score_hero sg []) ''Hero'' cs;
          cs = add_candidate ''LogoCloud.v1'' (score_logo_cloud sg []) ''Proof'' cs;
          cs = add_candidate ''TestimonialsGrid.v1'' (score_testimonials sg []) ''Proof'' cs;
          cs = add_candidate ''RatingsSummary.v1'' (score_ratings sg []) ''Proof'' cs;
          cs = add_candidate ''CaseStudies.v1'' (score_case_studies sg []) ''Proof'' cs;
          cs = add_candidate ''FeatureGrid.v1'' (score_feature_grid sg []) ''Feature'' cs;
          cs = add_candidate ''CardsGrid.v1'' (score_cards_grid sg []) ''Feature'' cs;
          cs = add_candidate ''FeatureWithMedia.v1'' (score_feature_media sg []) ''Feature'' cs;
          cs = add_candidate ''StepsTimeline.v1'' (score_steps sg []) ''Feature'' cs;
          cs = add_candidate ''StatsKPI.v1'' (score_stats sg []) ''Feature'' cs;
          cs = add_candidate ''IntegrationsGrid.v1'' (score_integrations sg []) ''Feature'' cs;
          cs = add_candidate ''ComparisonTable.v1'' (score_comparison sg []) ''Feature'' cs;
          cs = add_candidate ''UseCases.v1'' (score_use_cases sg []) ''Feature'' cs;
          cs = add_candidate ''PricingCards.v1'' (score_pricing sg []) ''Pricing'' cs;
          cs = add_candidate ''PlanComparison.v1'' (score_plan_compare sg []) ''Pricing'' cs;
          cs = add_candidate ''FAQAccordion.v1'' (score_faq sg []) ''FAQ'' cs;
          cs = add_candidate ''SupportLinks.v1'' (score_support sg []) ''Support'' cs;
          cs = add_candidate ''ContactSection.v1'' (score_contact sg []) ''Contact'' cs;
          cs = add_candidate ''Footer.v1'' (score_footer sg []) ''Skeleton'' cs;
          cs = add_candidate ''Navbar.v1'' (score_navbar sg []) ''Skeleton'' cs;
          cs = add_candidate ''AnnouncementBar.v1'' (score_announcement sg []) ''Skeleton'' cs
      in cs)"

definition classify_section :: "globals \<Rightarrow> layout_box \<Rightarrow> page_context \<Rightarrow> classification \<times> globals" where
  "classify_section g layout ctx =
     (let sg = build_signals g layout ctx;
          candidates = sorted_desc cand_score (all_candidates sg);
          family = (case candidates of [] \<Rightarrow> ''Unknown'' | c # _ \<Rightarrow> cand_family c)
      in (\<lparr> cls_candidates = take 5 candidates, cls_family = family, cls_signals = sg \<rparr>, g))"

section \<open>The Section Extractor (capture.py, _extract_section_boxes)\<close>

record dom_rect =
  rect_left :: real
  rect_top :: real
  rect_width :: real
  rect_height :: real

definition rect_right :: "dom_rect \<Rightarrow> real" where
  "rect_right r = rect_left r + rect_width r"

definition rect_bottom :: "dom_rect \<Rightarrow> real" where
  "rect_bottom r = rect_top r + rect_height r"

record element =
  ident :: nat
  tag_name :: ustr
  el_rect :: dom_rect

definition viewport_width :: "real \<Rightarrow> real" where
  "viewport_width inner_width = (if inner_width = 0 then 1440 else inner_width)"

definition pushEl :: "real \<Rightarrow> element option \<Rightarrow> nat list \<times> element list \<Rightarrow> nat list \<times> element list" where
  "pushEl viewportWidth el st =
     (case el of
        None \<Rightarrow> st
      | Some e \<Rightarrow>
          (case st of (seen, candidates) \<Rightarrow>
             if ident e \<in> set seen then st
             else
               let seen = seen @ [ident e]; rect = el_rect e
               in if rect_height rect < 60 \<or> rect_width rect < min 320 (viewportWidth * (4 / 10))
                  then (seen, candidates)
                  else if rect_width rect < viewportWidth * (5 / 10) then (seen, candidates)
                  else (seen, candidates @ [e])))"

definition collect_candidates :: "real \<Rightarrow> element option list list \<Rightarrow> element list" where
  "collect_candidates viewportWidth matches =
     snd (foldl (\<lambda>st el. pushEl viewportWidth el st) ([], []) (concat matches))"

definition iou :: "dom_rect \<Rightarrow> dom_rect \<Rightarrow> real" where
  "iou a b =
     (let x1 = max (rect_left a) (rect_left b);
          y1 = max (rect_top a) (rect_top b);
          x2 = min (rect_right a) (rect_right b);
          y2 = min (rect_bottom a) (rect_bottom b);
          inter = max 0 (x2 - x1) * max 0 (y2 - y1);
          areaA = (rect_right a - rect_left a) * (rect_bottom a - rect_top a);
          areaB = (rect_right b - rect_left b) * (rect_bottom b - rect_top b);
          denom = areaA + areaB - inter
      in if denom > 0 then inter / denom else 0)"

definition compare_candidates :: "element \<Rightarrow> element \<Rightarrow> real" where
  "compare_candidates a b =
     (if rect_top (el_rect a) - rect_top (el_rect b) \<noteq> 0
      then rect_top (el_rect a) - rect_top (el_rect b)
      else rect_height (el_rect b) - rect_height (el_rect a))"

fun insert_candidate :: "element \<Rightarrow> element list \<Rightarrow> element list" where
  "insert_candidate x [] = [x]"
| "insert_candidate x (y # ys) =
     (if compare_candidates x y < 0 then x # y # ys else y # insert_candidate x ys)"

definition sort_candidates :: "element list \<Rightarrow> element list" where
  "sort_candidates cs = foldl (\<lambda>acc x. insert_candidate x acc) [] cs"

fun suppress :: "element list \<Rightarrow> element list \<Rightarrow> element list" where
  "suppress filtered [] = filtered"
| "suppress filtered (item # rest) =
     (case find (\<lambda>f. iou (el_rect f) (el_rect item) > 85 / 100) filtered of
        None \<Rightarrow> suppress (filtered @ [item]) rest
      | Some dup \<Rightarrow> suppress filtered rest)"

definition filtered_candidates :: "element list \<Rightarrow> element list" where
  "filtered_candidates candidates = suppress [] (sort_candidates candidates)"

text \<open>
  The box that is returned for an accepted element; the element's id and class name are
  copied into it as the tag is.
\<close>

record section_box =
  box_tag :: ustr
  box_top :: real
  box_left :: real
  box_width :: real
  box_height :: real

definition extract_section_boxes :: "real \<Rightarrow> real \<Rightarrow> element option list list \<Rightarrow> section_box list" where
  "extract_section_boxes inner_width scroll_y matches =
     map (\<lambda>item. \<lparr> box_tag = tag_name item,
                     box_top = rect_top (el_rect item) + scroll_y,
                     box_left = rect_left (el_rect item),
                     box_width = rect_width (el_rect item),
                     box_height = rect_height (el_rect item) \<rparr>)
       (filtered_candidates (collect_candidates (viewport_width inner_width) matches))"

definition apart :: "element \<Rightarrow> element \<Rightarrow> bool" where
  "apart a b = (iou (el_rect a) (el_rect b) \<le> 85 / 100)"

text \<open>Boxes of the overlap scenario: two near-duplicates and a footer below them.\<close>

definition box_a :: element where
  "box_a = \<lparr> ident = 0, tag_name = u ''section'',
     el_rect = \<lparr> rect_left = 0, rect_top = 0, rect_width = 800, rect_height = 200 \<rparr> \<rparr>"

definition box_b :: element where
  "box_b = \<lparr> ident = 1, tag_name = u ''div'',
     el_rect = \<lparr> rect_left = 5, rect_top = 10, rect_width = 790, rect_height = 195 \<rparr> \<rparr>"

definition box_c :: element where
  "box_c = \<lparr> ident = 2, tag_name = u ''footer'',
     el_rect = \<lparr> rect_left = 0, rect_top = 300, rect_width = 800, rect_height = 100 \<rparr> \<rparr>"


text \<open>Elements of the size scenarios.\<close>

definition wide_el :: element where
  "wide_el = \<lparr> ident = 7, tag_name = u ''section'',
     el_rect = \<lparr> rect_left = 0, rect_top = 0, rect_width = 600, rect_height = 100 \<rparr> \<rparr>"

definition narrow_el :: element where
  "narrow_el = \<lparr> ident = 8, tag_name = u ''section'',
     el_rect = \<lparr> rect_left = 0, rect_top = 0, rect_width = 310, rect_height = 100 \<rparr> \<rparr>"

section \<open>The Layout Inferencer (capture.py, _infer_layout_type)\<close>

text \<open>
  A node of \<open>computed_styles.nodes\<close> with the four numbers of its bounding box (an absent
  key reads as 0). An entry that the loop skips before looking at the size, because it is
  not a dict or because \<open>float\<close> raises on one of the numbers, is \<open>None\<close>. The payload
  is \<open>None\<close> when it has no list of nodes. The source also counts the interactive
  nodes and collects the widths and heights, and uses none of them. Centres, span and
  midpoint are exact here; in doubles the midpoint can coincide with the smallest centre
  when the span is a few units in the last place.
\<close>

record node =
  node_x :: real
  node_y :: real
  node_w :: real
  node_h :: real

definition list_min :: "real list \<Rightarrow> real" where
  "list_min xs = fold min (tl xs) (hd xs)"

definition list_max :: "real list \<Rightarrow> real" where
  "list_max xs = fold max (tl xs) (hd xs)"

fun centers :: "node option list \<Rightarrow> (real \<times> real) list" where
  "centers [] = []"
| "centers (None # ns) = centers ns"
| "centers (Some n # ns) =
     (if node_w n \<le> 0 \<or> node_h n \<le> 0 then centers ns
      else (node_x n + node_w n / 2, node_y n + node_h n / 2) # centers ns)"

definition bucket_count :: "real \<Rightarrow> real list \<Rightarrow> nat" where
  \<comment> \<open>\<open>len({round(v / step) for v in vs})\<close>\<close>
  "bucket_count step vs = length (remdups (map (\<lambda>v. py_round (v / step)) vs))"

definition center_bins :: "(real \<times> real) list \<Rightarrow> nat" where
  "center_bins cs = length (remdups (map (\<lambda>(x, y). (py_round (x / 30), py_round (y / 30))) cs))"

definition infer_layout_type :: "node option list option \<Rightarrow> string" where
  "infer_layout_type payload_nodes =
     (case payload_nodes of
        None \<Rightarrow> ''stack''
      | Some nodes \<Rightarrow>
          if length nodes < 3 then ''stack''
          else
            let cs = centers nodes; xs = map fst cs; ys = map snd cs
            in if xs = [] then ''stack''
               else
                 let min_x = list_min xs; max_x = list_max xs; span_x = max_x - min_x
                 in if span_x \<le> 0 then ''stack''
                    else
                      let mid = min_x + span_x * (5 / 10);
                          left = filter (\<lambda>x. x < mid) xs;
                          right = filter (\<lambda>x. x \<ge> mid) xs
                      in if left \<noteq> [] \<and> right \<noteq> [] \<and> length left + length right \<ge> 6
                         then ''split''
                         else if length xs \<ge> 6 \<and> bucket_count 80 xs \<ge> 2 \<and> bucket_count 80 ys \<ge> 2
                         then ''grid''
                         else if length xs \<ge> 6 \<and> of_nat (center_bins cs) < (of_nat (length xs) :: real) * (5 / 10)
                         then ''overlap''
                         else ''stack'')"

text \<open>Six cards of 200 by 100 pixels in three columns and two rows.\<close>

definition card_at :: "real \<Rightarrow> real \<Rightarrow> node option" where
  "card_at x y = Some \<lparr> node_x = x, node_y = y, node_w = 200, node_h = 100 \<rparr>"

definition grid_nodes :: "node option list" where
  "grid_nodes = [card_at 0 0, card_at 400 0, card_at 800 0,
                 card_at 0 300, card_at 400 300, card_at 800 300]"

section \<open>The Design Token Extractor (theme.py)\<close>

subsection \<open>Colour conversion\<close>

text \<open>
  The conversion is computed in exact arithmetic and rounded with Python's \<open>round\<close>.
  A double result within rounding error of a half may round to the other neighbour; the
  colours evaluated below are far from such ties.
\<close>

definition hsl_string :: "int \<Rightarrow> int \<Rightarrow> int \<Rightarrow> ustr" where
  \<comment> \<open>the f-string \<open>"{h} {s}% {l}%"\<close>\<close>
  "hsl_string h s l = u (show_int h @ '' '' @ show_int s @ ''% '' @ show_int l @ ''%'')"

definition rgb_channels_to_hsl :: "real \<Rightarrow> real \<Rightarrow> real \<Rightarrow> error + ustr" where
  "rgb_channels_to_hsl r g b =
     (let max_c = max r (max g b);
          min_c = min r (min g b);
          l = (max_c + min_c) / 2
      in if max_c = min_c then Inr (hsl_string (py_round (0 * 360)) (py_round (0 * 100)) (py_round (l * 100)))
         else
           let d = max_c - min_c
           in if (if l > 5 / 10 then 2 - max_c - min_c else max_c + min_c) = 0
              then Inl ZeroDivisionError
              else
                let s = (if l > 5 / 10 then d / (2 - max_c - min_c) else d / (max_c + min_c));
                    h = (if max_c = r then (g - b) / d + (if g < b then 6 else 0)
                         else if max_c = g then (b - r) / d + 2
                         else (r - g) / d + 4);
                    h = h / 6
                in Inr (hsl_string (py_round (h * 360)) (py_round (s * 100)) (py_round (l * 100))))"

definition nth_or_raise :: "'a list \<Rightarrow> nat \<Rightarrow> 'a option" where
  \<comment> \<open>\<open>values[i]\<close>; \<open>None\<close> is the \<open>IndexError\<close>\<close>
  "nth_or_raise xs i = (if i < length xs then Some (xs ! i) else None)"

definition alpha_transparent :: "pyfloat \<Rightarrow> bool" where
  \<comment> \<open>\<open>alpha <= 0.01\<close>\<close>
  "alpha_transparent a = (case a of Fin x \<Rightarrow> x \<le> 1 / 100 | NInf \<Rightarrow> True | PInf \<Rightarrow> False | NaN \<Rightarrow> False)"

definition rgb_to_hsl :: "float_parser \<Rightarrow> ustr \<Rightarrow> error + ustr option" where
  \<comment> \<open>the \<open>try\<close> block turns every \<open>ValueError\<close> and \<open>IndexError\<close> into \<open>None\<close>\<close>
  "rgb_to_hsl fl color =
     (let vals = split_at 44 [] (strip_chars (u ''rgb() '') (py_replace (u ''rgba'') (u ''rgb'') color))
      in case map_option (py_int 10 \<circ> py_strip) (nth_or_raise vals 0) of
           None \<Rightarrow> Inr None
         | Some None \<Rightarrow> Inr None
         | Some (Some ri) \<Rightarrow>
        (case map_option (py_int 10 \<circ> py_strip) (nth_or_raise vals 1) of
           None \<Rightarrow> Inr None
         | Some None \<Rightarrow> Inr None
         | Some (Some gi) \<Rightarrow>
        (case map_option (py_int 10 \<circ> py_strip) (nth_or_raise vals 2) of
           None \<Rightarrow> Inr None
         | Some None \<Rightarrow> Inr None
         | Some (Some bi) \<Rightarrow>
        (case (if length vals > 3 then fl (py_strip (vals ! 3)) else Some (Fin 1)) of
           None \<Rightarrow> Inr None
         | Some alpha \<Rightarrow>
             if alpha_transparent alpha then Inr None
             else bind (rgb_channels_to_hsl (real_of_int ri / 255) (real_of_int gi / 255) (real_of_int bi / 255))
                    (\<lambda>hsl. Inr (Some hsl))))))"

definition hex_to_hsl :: "float_parser \<Rightarrow> ustr \<Rightarrow> error + ustr option" where
  "hex_to_hsl fl color0 =
     (if color0 = [] then Inr None
      else
        let color = py_lower (py_strip color0)
        in if startswith color (u ''rgb'') then rgb_to_hsl fl color
           else if \<not> startswith color (u ''#'') then Inr None
           else
             let hex_value = lstrip_chars (u ''#'') color;
                 hex_value = (if length hex_value = 3 then concat (map (\<lambda>c. [c, c]) hex_value)
                              else hex_value)
             in if length hex_value \<noteq> 6 then Inr None
                else
                  (case py_int 16 (take 2 hex_value) of
                     None \<Rightarrow> Inl ValueError
                   | Some ri \<Rightarrow>
                  (case py_int 16 (take 2 (drop 2 hex_value)) of
                     None \<Rightarrow> Inl ValueError
                   | Some gi \<Rightarrow>
                  (case py_int 16 (take 2 (drop 4 hex_value)) of
                     None \<Rightarrow> Inl ValueError
                   | Some bi \<Rightarrow>
                       bind (rgb_channels_to_hsl (real_of_int ri / 255) (real_of_int gi / 255)
                               (real_of_int bi / 255))
                         (\<lambda>hsl. Inr (Some hsl))))))"

definition parse_hsl :: "float_parser \<Rightarrow> ustr \<Rightarrow> error + (int \<times> int \<times> int) option" where
  \<comment> \<open>the \<open>try\<close> block catches the \<open>ValueError\<close> only\<close>
  "parse_hsl fl v =
     (if v = [] then Inr None
      else
        let parts = py_split (py_replace (u ''%'') [] v)
        in if length parts < 3 then Inr None
           else
             (case int_of_float (fl (parts ! 0)) of
                Inl e \<Rightarrow> (if e = ValueError then Inr None else Inl e)
              | Inr a \<Rightarrow>
             (case int_of_float (fl (parts ! 1)) of
                Inl e \<Rightarrow> (if e = ValueError then Inr None else Inl e)
              | Inr b \<Rightarrow>
             (case int_of_float (fl (parts ! 2)) of
                Inl e \<Rightarrow> (if e = ValueError then Inr None else Inl e)
              | Inr c \<Rightarrow> Inr (Some (a, b, c))))))"

subsection \<open>Tokens\<close>

record colors =
  background :: ustr
  foreground :: ustr
  primary :: ustr
  primary_foreground :: ustr
  secondary :: ustr
  secondary_foreground :: ustr
  muted :: ustr
  muted_foreground :: ustr
  border :: ustr

record typography =
  body :: ustr
  heading :: ustr

record spacing =
  base :: ustr
  scale :: "ustr list"

record palette =
  palette_text :: "ustr list"
  palette_background :: "ustr list"

record brand =
  color_mood :: string
  color_tone :: string
  contrast :: string
  brand_typography :: string

record tokens =
  tk_colors :: colors
  tk_typography :: typography
  tk_radius :: ustr
  tk_spacing :: spacing
  tk_palette :: palette
  tk_source_root_vars :: "(ustr \<times> ustr) list"

record w3c =
  w3c_color_background :: ustr
  w3c_color_foreground :: ustr
  w3c_color_primary :: ustr
  w3c_color_primaryForeground :: ustr
  w3c_color_secondary :: ustr
  w3c_color_muted :: ustr
  w3c_color_border :: ustr
  w3c_radius_md :: ustr
  w3c_font_body :: ustr
  w3c_font_heading :: ustr

record theme = tokens +
  tk_brand :: brand
  tk_w3c :: w3c

definition brand_profile :: "float_parser \<Rightarrow> 'a tokens_scheme \<Rightarrow> error + brand" where
  "brand_profile fl tk =
     bind (parse_hsl fl (primary (tk_colors tk))) (\<lambda>p.
     bind (parse_hsl fl (background (tk_colors tk))) (\<lambda>bg.
       let primary = (case p of None \<Rightarrow> (220, 60, 50) | Some t \<Rightarrow> t);
           background = (case bg of None \<Rightarrow> (0, 0, 100) | Some t \<Rightarrow> t);
           sat = fst (snd primary);
           light = snd (snd primary);
           bg_light = snd (snd background);
           mood = (if sat \<ge> 60 then ''vivid'' else ''muted'');
           tone = (if light \<ge> 60 then ''bright'' else ''deep'');
           contrast = (if \<bar>bg_light - light\<bar> \<ge> 50 then ''high'' else ''low'');
           body_font = body (tk_typography tk);
           typography = (if py_in (u ''serif'') (py_lower body_font)
                            \<and> \<not> py_in (u ''sans'') (py_lower body_font)
                         then ''serif'' else ''sans'')
       in Inr \<lparr> color_mood = mood, color_tone = tone, contrast = contrast,
                brand_typography = typography \<rparr>))"

subsection \<open>Style samples\<close>

text \<open>
  The samples dictionary. A string entry is read as \<open>samples.get(k) or ...\<close> everywhere,
  so an absent key, \<open>None\<close> and the empty string behave alike and are the empty text here.
  The count dictionaries keep their insertion order, which the stable sorts preserve.
\<close>

record samples =
  root_vars :: "(ustr \<times> ustr) list"
  body_bg :: ustr
  body_color :: ustr
  button_bg :: ustr
  button_color :: ustr
  link_color :: ustr
  card_bg :: ustr
  border_color :: ustr
  button_radius :: ustr
  body_font :: ustr
  heading_font :: ustr
  computed_bg_colors :: "(ustr \<times> int) list"
  computed_text_colors :: "(ustr \<times> int) list"
  computed_radius :: "(ustr \<times> int) list"
  computed_padding :: "(ustr \<times> int) list"
  computed_margin :: "(ustr \<times> int) list"
  computed_fonts :: "(ustr \<times> int) list"

definition or_else :: "ustr \<Rightarrow> ustr \<Rightarrow> ustr" where
  \<comment> \<open>\<open>a or b\<close> on strings\<close>
  "or_else a b = (if a \<noteq> [] then a else b)"

definition opt_or :: "ustr option \<Rightarrow> ustr \<Rightarrow> ustr" where
  \<comment> \<open>\<open>a or b\<close> where \<open>a\<close> is a string or \<open>None\<close>\<close>
  "opt_or a b = (case a of None \<Rightarrow> b | Some s \<Rightarrow> or_else s b)"

fun pick_root_var :: "(ustr \<times> ustr) list \<Rightarrow> ustr list \<Rightarrow> ustr option" where
  "pick_root_var rv [] = None"
| "pick_root_var rv (key # keys) =
     (case map_of rv key of
        Some v \<Rightarrow> (if v \<noteq> [] then Some v else pick_root_var rv keys)
      | None \<Rightarrow> pick_root_var rv keys)"

definition top_count_value :: "(ustr \<times> int) list \<Rightarrow> ustr option" where
  "top_count_value counts =
     (case sorted_desc snd counts of [] \<Rightarrow> None | kv # _ \<Rightarrow> Some (fst kv))"

definition top_n_values :: "(ustr \<times> int) list \<Rightarrow> nat \<Rightarrow> ustr list" where
  "top_n_values counts n = map fst (take n (sorted_desc snd counts))"

fun pick_vivid_loop :: "float_parser \<Rightarrow> (ustr \<times> int) list \<Rightarrow> error + ustr option" where
  "pick_vivid_loop fl [] = Inr None"
| "pick_vivid_loop fl ((v, n) # rest) =
     bind (hex_to_hsl fl v) (\<lambda>hsl.
       case hsl of
         None \<Rightarrow> pick_vivid_loop fl rest
       | Some h \<Rightarrow>
           if h = [] then pick_vivid_loop fl rest
           else bind (parse_hsl fl h) (\<lambda>parsed.
             case parsed of
               None \<Rightarrow> pick_vivid_loop fl rest
             | Some t \<Rightarrow> if fst (snd t) \<ge> 15 then Inr (Some v) else pick_vivid_loop fl rest))"

definition pick_vivid_color :: "float_parser \<Rightarrow> (ustr \<times> int) list \<Rightarrow> error + ustr option" where
  "pick_vivid_color fl counts = pick_vivid_loop fl (sorted_desc snd counts)"

fun px_tokens :: "float_parser \<Rightarrow> ustr list \<Rightarrow> error + int list" where
  "px_tokens fl [] = Inr []"
| "px_tokens fl (t # ts) =
     (if endswith t (u ''px'')
      then (case int_of_float (fl (py_replace (u ''px'') [] t)) of
              Inl e \<Rightarrow> (if e = ValueError then px_tokens fl ts else Inl e)
            | Inr v \<Rightarrow> bind (px_tokens fl ts) (\<lambda>vs. Inr (v # vs)))
      else px_tokens fl ts)"

definition extract_px_values :: "float_parser \<Rightarrow> (ustr \<times> int) list \<Rightarrow> error + int list" where
  "extract_px_values fl counts =
     bind (px_tokens fl (concat (map (\<lambda>(raw, n). py_split (py_replace (u '','') (u '' '') raw)) counts)))
       (\<lambda>vs. Inr (filter (\<lambda>v. v > 0) vs))"

fun bump :: "int \<Rightarrow> (int \<times> int) list \<Rightarrow> (int \<times> int) list" where
  \<comment> \<open>\<open>freq[v] = freq.get(v, 0) + 1\<close>\<close>
  "bump v [] = [(v, 1)]"
| "bump v ((k, n) # rest) = (if k = v then (k, n + 1) # rest else (k, n) # bump v rest)"

fun insert_freq :: "int \<times> int \<Rightarrow> (int \<times> int) list \<Rightarrow> (int \<times> int) list" where
  \<comment> \<open>ascending in the key \<open>(-count, value)\<close>\<close>
  "insert_freq x [] = [x]"
| "insert_freq x (y # ys) =
     (if (- snd x < - snd y) \<or> (- snd x = - snd y \<and> fst x < fst y) then x # y # ys
      else y # insert_freq x ys)"

definition px_string :: "int \<Rightarrow> ustr" where
  "px_string v = u (show_int v @ ''px'')"

definition infer_spacing_scale ::
  "float_parser \<Rightarrow> (ustr \<times> int) list \<Rightarrow> (ustr \<times> int) list \<Rightarrow> error + spacing option" where
  "infer_spacing_scale fl padding_counts margin_counts =
     bind (extract_px_values fl padding_counts) (\<lambda>ps.
     bind (extract_px_values fl margin_counts) (\<lambda>ms.
       let vals = ps @ ms
       in if vals = [] then Inr None
          else
            let freq = foldl (\<lambda>f v. bump v f) [] vals;
                base0 = fst (hd (foldl (\<lambda>acc x. insert_freq x acc) [] freq));
                base = min (max base0 4) 12
            in Inr (Some \<lparr> base = px_string base,
                             scale = map px_string [base, base * 2, base * 3, base * 4, base * 6] \<rparr>)))"

definition hsl_or :: "float_parser \<Rightarrow> ustr \<Rightarrow> string \<Rightarrow> error + ustr" where
  \<comment> \<open>\<open>_hex_to_hsl(c) or default\<close>\<close>
  "hsl_or fl c dflt = bind (hex_to_hsl fl c) (\<lambda>h. Inr (opt_or h (u dflt)))"

definition build_theme_tokens :: "float_parser \<Rightarrow> samples option \<Rightarrow> error + theme" where
  "build_theme_tokens fl samples_opt =
     (case samples_opt of
        None \<Rightarrow> Inl AttributeError
      | Some sm \<Rightarrow>
     (let rv = root_vars sm;
          computed_bg = top_count_value (computed_bg_colors sm);
          computed_text = top_count_value (computed_text_colors sm);
          body_bg = or_else (body_bg sm) (opt_or computed_bg (u ''#ffffff''));
          body_color = or_else (body_color sm) (opt_or computed_text (u ''#0f172a''))
      in
      bind (case pick_root_var rv [u ''--primary'', u ''--brand'', u ''--color-primary''] of
              Some v \<Rightarrow> Inr v
            | None \<Rightarrow>
                if button_bg sm \<noteq> [] then Inr (button_bg sm)
                else bind (pick_vivid_color fl (computed_text_colors sm))
                       (\<lambda>v. Inr (opt_or v (u ''#2563eb'')))) (\<lambda>button_bg.
      let button_color = (case pick_root_var rv [u ''--primary-foreground'', u ''--on-primary''] of
                            Some v \<Rightarrow> v | None \<Rightarrow> or_else (button_color sm) (u ''#ffffff''));
          link_color = (case pick_root_var rv [u ''--link'', u ''--color-link'', u ''--accent''] of
                          Some v \<Rightarrow> v | None \<Rightarrow> or_else (link_color sm) (u ''#0ea5e9''));
          card_bg = (case pick_root_var rv [u ''--card'', u ''--surface'', u ''--panel''] of
                       Some v \<Rightarrow> v | None \<Rightarrow> or_else (card_bg sm) (u ''#f8fafc''));
          border_color = (case pick_root_var rv [u ''--border'', u ''--line'', u ''--stroke''] of
                            Some v \<Rightarrow> v | None \<Rightarrow> or_else (border_color sm) (u ''#e2e8f0''));
          computed_radius = top_count_value (computed_radius sm);
          radius = or_else (button_radius sm) (opt_or computed_radius (u ''12px''))
      in
      bind (infer_spacing_scale fl (computed_padding sm) (computed_margin sm)) (\<lambda>spacing.
      let palette = \<lparr> palette_text = top_n_values (computed_text_colors sm) 3,
                       palette_background = top_n_values (computed_bg_colors sm) 3 \<rparr>
      in
      bind (hsl_or fl body_bg ''0 0% 100%'') (\<lambda>c_background.
      bind (hsl_or fl body_color ''222 47% 11%'') (\<lambda>c_foreground.
      bind (hsl_or fl button_bg ''221 83% 53%'') (\<lambda>c_primary.
      bind (hsl_or fl button_color ''0 0% 100%'') (\<lambda>c_primary_foreground.
      bind (hsl_or fl link_color ''199 89% 48%'') (\<lambda>c_secondary.
      bind (hsl_or fl body_color ''222 47% 11%'') (\<lambda>c_secondary_foreground.
      bind (hsl_or fl card_bg ''210 40% 96%'') (\<lambda>c_muted.
      bind (hsl_or fl body_color ''215 25% 27%'') (\<lambda>c_muted_foreground.
      bind (hsl_or fl border_color ''214 32% 91%'') (\<lambda>c_border.
      let tk = \<lparr> tk_colors = \<lparr> background = c_background, foreground = c_foreground,
                     primary = c_primary, primary_foreground = c_primary_foreground,
                     secondary = c_secondary, secondary_foreground = c_secondary_foreground,
                     muted = c_muted, muted_foreground = c_muted_foreground, border = c_border \<rparr>,
                  tk_typography = \<lparr>
                     body = or_else (body_font sm) (opt_or (top_count_value (computed_fonts sm)) (u ''Inter'')),
                     heading = or_else (heading_font sm) (or_else (body_font sm)
                                 (opt_or (top_count_value (computed_fonts sm)) (u ''Inter''))) \<rparr>,
                  tk_radius = radius,
                  tk_spacing = (case spacing of
                                  Some sp \<Rightarrow> sp
                                | None \<Rightarrow> \<lparr> base = u ''8px'',
                                             scale = [u ''8px'', u ''16px'', u ''24px'', u ''32px''] \<rparr>),
                  tk_palette = palette,
                  tk_source_root_vars = rv \<rparr>
      in
      bind (brand_profile fl tk) (\<lambda>br.
        Inr (tokens.extend tk \<lparr> tk_brand = br,
               tk_w3c = \<lparr> w3c_color_background = background (tk_colors tk),
                           w3c_color_foreground = foreground (tk_colors tk),
                           w3c_color_primary = primary (tk_colors tk),
                           w3c_color_primaryForeground = primary_foreground (tk_colors tk),
                           w3c_color_secondary = secondary (tk_colors tk),
                           w3c_color_muted = muted (tk_colors tk),
                           w3c_color_border = border (tk_colors tk),
                           w3c_radius_md = radius,
                           w3c_font_body = body (tk_typography tk),
                           w3c_font_heading = heading (tk_typography tk) \<rparr> \<rparr>)))))))))))))))"

definition no_samples :: samples where
  "no_samples = \<lparr> root_vars = [], body_bg = [], body_color = [], button_bg = [],
     button_color = [], link_color = [], card_bg = [], border_color = [], button_radius = [],
     body_font = [], heading_font = [], computed_bg_colors = [], computed_text_colors = [],
     computed_radius = [], computed_padding = [], computed_margin = [], computed_fonts = [] \<rparr>"

text \<open>The tokens that the defaults of \<open>build_theme_tokens\<close> give.\<close>

definition default_tokens :: tokens where
  "default_tokens =
     \<lparr> tk_colors = \<lparr> background = u ''0 0% 100%'', foreground = u ''222 47% 11%'',
          primary = u ''221 83% 53%'', primary_foreground = u ''0 0% 100%'',
          secondary = u ''199 89% 48%'', secondary_foreground = u ''222 47% 11%'',
          muted = u ''210 40% 98%'', muted_foreground = u ''222 47% 11%'',
          border = u ''214 32% 91%'' \<rparr>,
       tk_typography = \<lparr> body = u ''Inter'', heading = u ''Inter'' \<rparr>,
       tk_radius = u ''12px'',
       tk_spacing = \<lparr> base = u ''8px'', scale = [u ''8px'', u ''16px'', u ''24px'', u ''32px''] \<rparr>,
       tk_palette = \<lparr> palette_text = [], palette_background = [] \<rparr>,
       tk_source_root_vars = [] \<rparr>"

definition hsl_sat :: "(int \<times> int \<times> int) \<Rightarrow> int" where
  "hsl_sat t = fst (snd t)"

definition hsl_light :: "(int \<times> int \<times> int) \<Rightarrow> int" where
  "hsl_light t = snd (snd t)"

section \<open>The Section Composer (map.py)\<close>

subsection \<open>Atom sections\<close>

text \<open>
  An atom of the atoms DSL with the fields the rules read. The loops of the source skip
  entries that are not dictionaries, so only the dictionaries are listed. A \<open>text\<close> that
  is no string and a \<open>bbox\<close> that is no dictionary are \<open>None\<close>. A count of the
  \<open>stats\<close> is read as \<open>int(stats.get(k) or 0)\<close>, so an absent count is 0.
\<close>

datatype atom_kind = Heading | Text | Link | Button | Image | Video | Input | OtherKind

record atom_bbox =
  bbox_x :: real
  bbox_y :: real
  bbox_w :: real
  bbox_h :: real

record atom =
  atom_kind :: atom_kind
  atom_text :: "ustr option"
  atom_bbox :: "atom_bbox option"

record atom_stats =
  stat_images :: int
  stat_text :: int
  stat_headings :: int
  stat_links :: int
  stat_buttons :: int

record atoms_section =
  atoms :: "atom list"
  stats :: atom_stats
  layoutPattern :: ustr

definition py_trunc :: "real \<Rightarrow> int" where
  \<comment> \<open>\<open>int(x)\<close> on a float: towards zero\<close>
  "py_trunc x = (if x \<ge> 0 then \<lfloor>x\<rfloor> else \<lceil>x\<rceil>)"

definition round_bucket :: "int list \<Rightarrow> int \<Rightarrow> (int \<times> int) list" where
  "round_bucket vals step =
     foldl (\<lambda>buckets v. bump (py_round (real_of_int v / real_of_int step) * step) buckets) [] vals"

definition max_or_zero :: "int list \<Rightarrow> int" where
  \<comment> \<open>\<open>max(values or [0])\<close>\<close>
  "max_or_zero vs = (case vs of [] \<Rightarrow> 0 | v # rest \<Rightarrow> fold max rest v)"

definition atoms_text_blob :: "atoms_section \<Rightarrow> ustr" where
  "atoms_text_blob sec =
     (let parts = concat (map (\<lambda>a.
                     if atom_kind a \<in> {Heading, Text, Link, Button}
                     then (case atom_text a of
                             None \<Rightarrow> []
                           | Some t \<Rightarrow> if py_strip t \<noteq> [] then [py_strip t] else [])
                     else []) (atoms sec))
      in py_lower (take 1200 (join (u '' '') parts)))"

subsection \<open>Atom rules\<close>

text \<open>
  Each rule returns whether it fires and a confidence. The confidences are the decimal
  literals of the source; the Composer reads them as \<open>int(score * 100)\<close>, which for each
  of these literals is the same integer in double arithmetic as in exact arithmetic.
\<close>

definition atoms_logo_candidate :: "atoms_section \<Rightarrow> bool \<times> real" where
  "atoms_logo_candidate sec =
     (let images = stat_images (stats sec);
          texts = stat_text (stats sec);
          headings = stat_headings (stats sec);
          links = stat_links (stats sec);
          buttons = stat_buttons (stats sec)
      in if images \<ge> 6 \<and> texts \<le> 2 \<and> headings \<le> 1 \<and> links \<le> 3 \<and> buttons = 0
         then (True, 85 / 100)
         else if images \<ge> 5 \<and> texts \<le> 4 \<and> headings \<le> 2 \<and> links \<le> 4
         then (True, 65 / 100)
         else (False, 0))"

definition atoms_price_words :: "ustr list" where
  \<comment> \<open>the words of the classifier's pattern and the two Chinese words for price\<close>
  "atoms_price_words = classifier_price_words @ [[0x4EF7, 0x683C], [0x5B9A, 0x4EF7]]"

definition atoms_pricing_candidate :: "atoms_section \<Rightarrow> bool \<times> real" where
  "atoms_pricing_candidate sec =
     (let text_blob = atoms_text_blob sec;
          has_price = re_search (price_match atoms_price_words) text_blob;
          buttons = stat_buttons (stats sec);
          links = stat_links (stats sec);
          headings = stat_headings (stats sec)
      in if has_price \<and> buttons + links \<ge> 1 \<and> headings \<ge> 1 then (True, 85 / 100)
         else if has_price then (True, 65 / 100)
         else (False, 0))"

definition atoms_faq_candidate :: "atoms_section \<Rightarrow> bool \<times> real" where
  "atoms_faq_candidate sec =
     (let text_blob = atoms_text_blob sec;
          question_marks = py_count [63] text_blob + py_count [0xFF1F] text_blob
      in if py_in (u ''faq'') text_blob \<or> py_in [0x5E38, 0x89C1, 0x95EE, 0x9898] text_blob
         then (True, 85 / 100)
         else if question_marks \<ge> 2 then (True, 7 / 10)
         else (False, 0))"

definition atoms_stats_candidate :: "atoms_section \<Rightarrow> bool \<times> real" where
  "atoms_stats_candidate sec =
     (let text_blob = atoms_text_blob sec;
          matches = findall_from stats_match 0 text_blob
      in if matches \<ge> 3 then (True, 8 / 10)
         else if matches = 2 then (True, 6 / 10)
         else (False, 0))"

definition step_match :: "ustr \<Rightarrow> bool" where
  \<comment> \<open>the pattern of a numbered step at the start of the stripped text: white space,
      digits, then a full stop, a closing bracket or an ideographic comma\<close>
  "step_match t =
     (let s = dropWhile py_isspace (py_strip t);
          n = length (takeWhile is_digit s)
      in n > 0 \<and> (case drop n s of [] \<Rightarrow> False | c # _ \<Rightarrow> c = 46 \<or> c = 41 \<or> c = 0x3001))"

definition atoms_steps_candidate :: "atoms_section \<Rightarrow> bool \<times> real" where
  "atoms_steps_candidate sec =
     (let step_count = length (filter (\<lambda>a. case atom_text a of None \<Rightarrow> False | Some t \<Rightarrow> step_match t)
                                 (atoms sec));
          text_blob = atoms_text_blob sec
      in if step_count \<ge> 3 \<or> py_in [0x6B65, 0x9AA4] text_blob \<or> py_in (u ''step'') text_blob
         then (True, 75 / 100)
         else (False, 0))"

definition atoms_testimonials_candidate :: "atoms_section \<Rightarrow> bool \<times> real" where
  "atoms_testimonials_candidate sec =
     (let text_blob = atoms_text_blob sec;
          quotes = py_count [0x201C] text_blob + py_count [34] text_blob;
          images = stat_images (stats sec)
      in if images \<ge> 2 \<and> (py_in (u ''testimonial'') text_blob \<or> py_in [0x8BC4, 0x4EF7] text_blob
                           \<or> py_in [0x5BA2, 0x6237] text_blob)
         then (True, 75 / 100)
         else if images \<ge> 2 \<and> quotes \<ge> 2 then (True, 65 / 100)
         else (False, 0))"

definition atoms_feature_candidate :: "atoms_section \<Rightarrow> bool \<times> real" where
  "atoms_feature_candidate sec =
     (let headings = stat_headings (stats sec);
          texts = stat_text (stats sec);
          images = stat_images (stats sec)
      in if headings \<ge> 3 \<and> texts \<ge> 3 \<and> images \<ge> 1 then (True, 6 / 10)
         else if headings \<ge> 3 \<and> texts \<ge> 4 then (True, 55 / 100)
         else (False, 0))"

definition atoms_cards_candidate :: "atoms_section \<Rightarrow> bool \<times> real" where
  "atoms_cards_candidate sec =
     (let img_atoms = filter (\<lambda>a. atom_kind a = Image \<and> atom_bbox a \<noteq> None) (atoms sec);
          link_atoms = filter (\<lambda>a. atom_kind a \<in> {Link, Button}) (atoms sec);
          heading_atoms = filter (\<lambda>a. atom_kind a = Heading) (atoms sec);
          text_atoms = filter (\<lambda>a. atom_kind a = Text) (atoms sec);
          img_count = int (length img_atoms);
          link_count = int (length link_atoms);
          heading_count = int (length heading_atoms);
          text_count = int (length text_atoms);
          widths = filter (\<lambda>w. w > 0)
                     (map (\<lambda>a. case atom_bbox a of None \<Rightarrow> 0 | Some b \<Rightarrow> py_trunc (bbox_w b)) img_atoms);
          heights = filter (\<lambda>h. h > 0)
                      (map (\<lambda>a. case atom_bbox a of None \<Rightarrow> 0 | Some b \<Rightarrow> py_trunc (bbox_h b)) img_atoms);
          width_buckets = round_bucket widths 20;
          height_buckets = round_bucket heights 20;
          grid_like = (max_or_zero (map snd width_buckets) \<ge> 3 \<or> max_or_zero (map snd height_buckets) \<ge> 3);
          logo_like = (img_count \<ge> 6 \<and> heading_count \<le> 1 \<and> text_count \<le> 1 \<and> link_count \<le> 2)
      in if logo_like then (False, 3 / 10)
         else
           let base_signal = ((img_count \<ge> 3 \<and> link_count + text_count + heading_count \<ge> 3)
                              \<or> (img_count \<ge> 4 \<and> heading_count \<ge> 2));
               strong = (base_signal \<and> grid_like);
               score = (if strong then 9 / 10
                        else if base_signal then 6 / 10
                        else if stat_images (stats sec) \<ge> 6 \<and> stat_text (stats sec) \<le> 6 then 55 / 100
                        else 0)
           in (score \<ge> 6 / 10, score))"

definition suggest_block_from_atoms :: "atoms_section \<Rightarrow> string option \<times> real \<times> string option" where
  "suggest_block_from_atoms sec =
     (if fst (atoms_pricing_candidate sec)
      then (Some ''PricingCards.v1'', snd (atoms_pricing_candidate sec), Some ''Pricing'')
      else if fst (atoms_faq_candidate sec)
      then (Some ''FAQAccordion.v1'', snd (atoms_faq_candidate sec), Some ''FAQ'')
      else if fst (atoms_stats_candidate sec)
      then (Some ''StatsKPI.v1'', snd (atoms_stats_candidate sec), Some ''Feature'')
      else if fst (atoms_steps_candidate sec)
      then (Some ''StepsTimeline.v1'', snd (atoms_steps_candidate sec), Some ''Feature'')
      else if fst (atoms_logo_candidate sec)
      then (Some ''LogoCloud.v1'', snd (atoms_logo_candidate sec), Some ''Proof'')
      else if fst (atoms_testimonials_candidate sec)
      then (Some ''TestimonialsGrid.v1'', snd (atoms_testimonials_candidate sec), Some ''Proof'')
      else if py_in (u ''split'') (py_lower (layoutPattern sec))
      then (Some ''FeatureWithMedia.v1'', 85 / 100, Some ''Feature'')
      else if fst (atoms_cards_candidate sec)
      then (Some ''CardsGrid.v1'', snd (atoms_cards_candidate sec), Some ''Feature'')
      else if fst (atoms_feature_candidate sec)
      then (Some ''FeatureGrid.v1'', snd (atoms_feature_candidate sec), Some ''Feature'')
      else (None, 0, None))"

subsection \<open>Resolving the type of a section\<close>

text \<open>
  The part of the loop of \<open>map_sections\<close> that fuses the classifier and the atom rules
  into the type and the candidates of one section. The state of a section is its type, as
  the baseline mapping and the earlier steps of the loop left it, its source title and its
  candidates.
\<close>

record mapped_section =
  sec_type :: string
  sec_source :: ustr
  sec_candidates :: "candidate list"
  sec_family :: string

definition classifier_stage ::
  "globals \<Rightarrow> string list \<Rightarrow> layout_box \<Rightarrow> page_context \<Rightarrow> mapped_section \<Rightarrow> mapped_section" where
  "classifier_stage g available_blocks layout ctx section =
     (let source_label = py_lower (py_strip (sec_source section));
          force_footer = (source_label = u ''footer'')
      in if ''Footer.v1'' \<in> set available_blocks \<and> force_footer
         then section\<lparr> sec_type := ''Footer.v1'',
                sec_candidates := [\<lparr> cand_type = ''Footer.v1'', cand_score = 100,
                                      cand_reasons = [''footer_tag:100''], cand_family = ''Skeleton'' \<rparr>],
                sec_family := ''Skeleton'' \<rparr>
         else
           let classification = fst (classify_section g layout ctx);
               candidates = cls_candidates classification;
               initial_type = sec_type section;
               section = section\<lparr> sec_candidates := candidates, sec_family := cls_family classification \<rparr>
           in case candidates of
                [] \<Rightarrow> section
              | best # _ \<Rightarrow>
                  let top_type = cand_type best;
                      top_score = cand_score best;
                      initial_score = (case find (\<lambda>c. cand_type c = initial_type) candidates of
                                         None \<Rightarrow> 0 | Some c \<Rightarrow> cand_score c)
                  in if top_type \<in> set available_blocks
                     then
                       if initial_type \<notin> {''Footer.v1'', ''Navbar.v1'', ''AnnouncementBar.v1''}
                       then
                         let threshold = max (initial_score + 10) 60
                         in if top_type \<noteq> initial_type \<and> top_score \<ge> threshold
                            then section\<lparr> sec_type := top_type \<rparr> else section
                       else section\<lparr> sec_type := top_type \<rparr>
                     else section)"

definition atom_stage ::
  "string list \<Rightarrow> int \<Rightarrow> atoms_section option \<Rightarrow> mapped_section \<Rightarrow> mapped_section" where
  "atom_stage available_blocks index atoms_sec section =
     (case atoms_sec of
        None \<Rightarrow> section
      | Some sec \<Rightarrow>
          (case suggest_block_from_atoms sec of
             (None, s_score, s_family) \<Rightarrow> section
           | (Some suggestion, s_score, s_family) \<Rightarrow>
               if suggestion \<in> set available_blocks
               then
                 let top_candidate = \<lparr> cand_type = suggestion, cand_score = py_trunc (s_score * 100),
                             cand_reasons = [''atoms_rule:'' @ show_int (py_trunc (s_score * 100))],
                             cand_family = (case s_family of None \<Rightarrow> ''Feature''
                                            | Some f \<Rightarrow> if f = [] then ''Feature'' else f) \<rparr>;
                     current_type = sec_type section;
                     protected = {''Footer.v1'', ''Navbar.v1'', ''AnnouncementBar.v1'', ''LeadCaptureCTA.v1''}
                                 \<union> (if index = 0 then {''HeroCentered.v1''} else {});
                     should_override = (suggestion \<noteq> current_type \<and> current_type \<notin> protected
                                        \<and> py_trunc (s_score * 100) \<ge> 80);
                     is_split_cards = (current_type = ''CardsGrid.v1'' \<and> py_in (u '' - '') (sec_source section));
                     section = (if should_override \<and> \<not> is_split_cards
                                then section\<lparr> sec_type := suggestion \<rparr> else section)
                 in section\<lparr> sec_candidates :=
                              top_candidate # take 4 (filter (\<lambda>c. cand_type c \<noteq> suggestion) (sec_candidates section)) \<rparr>
               else section))"

definition resolve_section ::
  "globals \<Rightarrow> string list \<Rightarrow> int \<Rightarrow> layout_box \<Rightarrow> page_context \<Rightarrow> atoms_section option
     \<Rightarrow> mapped_section \<Rightarrow> mapped_section" where
  "resolve_section g available_blocks index layout ctx atoms_sec section =
     atom_stage available_blocks index atoms_sec
       (classifier_stage g available_blocks layout ctx section)"

subsection \<open>Concrete sections\<close>

text \<open>
  A footer whose title is not the bare word, a logo strip with the statistics of the
  logo scenario, and a footer titled with the bare word.
\<close>

definition all_blocks :: "string list" where
  "all_blocks = [''HeroCentered.v1'', ''LogoCloud.v1'', ''TestimonialsGrid.v1'', ''FeatureGrid.v1'',
     ''CardsGrid.v1'', ''FeatureWithMedia.v1'', ''PricingCards.v1'', ''FAQAccordion.v1'',
     ''Footer.v1'', ''Navbar.v1'', ''AnnouncementBar.v1'']"






definition logo_image :: "real \<Rightarrow> atom" where
  "logo_image x = \<lparr> atom_kind = Image, atom_text = None,
     atom_bbox = Some \<lparr> bbox_x = x, bbox_y = 40, bbox_w = 120, bbox_h = 40 \<rparr> \<rparr>"

definition words_atom :: "atom_kind \<Rightarrow> string \<Rightarrow> atom" where
  "words_atom k s = \<lparr> atom_kind = k, atom_text = Some (u s), atom_bbox = None \<rparr>"

definition logo_section :: atoms_section where
  "logo_section = \<lparr> atoms =
       [words_atom Heading ''Trusted by teams'', words_atom Text ''Acme'', words_atom Text ''Globex'',
        words_atom Text ''Initech'', words_atom Text ''Umbrella'',
        logo_image 0, logo_image 160, logo_image 320, logo_image 480, logo_image 640, logo_image 800],
     stats = \<lparr> stat_images = 6, stat_text = 4, stat_headings = 1, stat_links = 0, stat_buttons = 0 \<rparr>,
     layoutPattern = u ''stack'' \<rparr>"

definition logo_ctx :: page_context where
  "logo_ctx = \<lparr> ctx_text = u ''Trusted by teams Acme Globex Initech Umbrella'', ctx_index = 2,
     ctx_total = 6, ctx_viewport_height = 900, ctx_grid_like = True, ctx_repeat_items = False,
     ctx_has_media = True, ctx_has_points = False, ctx_two_column_like = True,
     ctx_img_count = 6, ctx_card_count = 0, ctx_near_hero = False, ctx_has_h1 = False,
     ctx_has_cta = False, ctx_has_footer_tag = False \<rparr>"

definition logo_layout :: layout_box where
  "logo_layout = \<lparr> layout_top = 1800, layout_height = 300 \<rparr>"

definition logo_initial :: mapped_section where
  "logo_initial = \<lparr> sec_type = ''FeatureGrid.v1'', sec_source = u ''Trusted by teams'',
     sec_candidates = [], sec_family = [] \<rparr>"



section \<open>Evaluation lemmas\<close>

lemma show_nat_digit: "n < 10 \<Longrightarrow> show_nat n = [digit_char n]"
  by (simp add: show_nat.simps)

lemma show_nat_step: "\<not> n < 10 \<Longrightarrow> show_nat n = show_nat (n div 10) @ [digit_char n]"
  by (subst show_nat.simps) simp

lemmas show_eval = show_int_def show_nat_digit show_nat_step digit_char_def

lemmas score_eval = score_def plus_score_def minus_score_def show_eval


section \<open>The Hero scorer\<close>

lemma score_hero_value:
  "fst (score_hero sg rs) =
     (if above_the_fold sg then 20 else 0) + (if has_h1 sg then 25 else 0)
     + (if has_cta_phrase sg then 15 else 0)
     + (if link_density sg > 8 / 100 then 25 else 0)
     + (if has_price_pattern sg then 15 else 0)"
  by (simp add: score_hero_def plus_score_def minus_score_def score_def Let_def)

text \<open>
  C1. The Hero scorer is meant to take 25 points off for a high link density and 15 off
  for a price pattern, and its reasons trace records exactly these deltas. The scorer
  subtracts the negative delta that \<open>_score\<close> returns, so the points are added: a section
  whose only signal is a link density of 0.1 scores +25, while the trace says
  \<open>high_link_density:-25\<close>; with a price pattern alone it scores +15 against a trace of
  \<open>price_pattern:-15\<close>.
\<close>

theorem score_hero_penalties_are_added:
  "score_hero (no_signals\<lparr>link_density := 1 / 10\<rparr>) [] = (25, [''high_link_density:-25''])
   \<and> score_hero (no_signals\<lparr>has_price_pattern := True\<rparr>) [] = (15, [''price_pattern:-15''])"
  by (simp add: score_hero_def no_signals_def score_eval)


section \<open>Classification: order and repeatability\<close>









section \<open>Section extraction: suppression of near-duplicates\<close>

lemma length_insert_candidate: "length (insert_candidate x ys) = Suc (length ys)"
  by (induction ys) auto

lemma length_sort_candidates_aux:
  "length (foldl (\<lambda>acc x. insert_candidate x acc) acc cs) = length acc + length cs"
  by (induction cs arbitrary: acc) (auto simp: length_insert_candidate)

lemma length_sort_candidates: "length (sort_candidates cs) = length cs"
  by (simp add: sort_candidates_def length_sort_candidates_aux)

lemma length_suppress: "length (suppress acc cs) \<le> length acc + length cs"
proof (induction cs arbitrary: acc)
  case Nil
  then show ?case by simp
next
  case (Cons c cs)
  show ?case
  proof (cases "find (\<lambda>f. iou (el_rect f) (el_rect c) > 85 / 100) acc")
    case None
    then show ?thesis using Cons.IH [of "acc @ [c]"] by simp
  next
    case (Some d)
    then show ?thesis using Cons.IH [of acc] by simp
  qed
qed

lemma suppress_apart:
  "sorted_wrt apart acc \<Longrightarrow> sorted_wrt apart (suppress acc cs)"
proof (induction cs arbitrary: acc)
  case Nil
  then show ?case by simp
next
  case (Cons c cs)
  show ?case
  proof (cases "find (\<lambda>f. iou (el_rect f) (el_rect c) > 85 / 100) acc")
    case None
    then have "\<forall>f \<in> set acc. apart f c"
      by (auto simp: find_None_iff apart_def not_less)
    with Cons.prems have "sorted_wrt apart (acc @ [c])"
      by (simp add: sorted_wrt_append)
    then show ?thesis using None Cons.IH [of "acc @ [c]"] by simp
  next
    case (Some d)
    then show ?thesis using Cons.IH [OF Cons.prems] by simp
  qed
qed

lemma iou_commute: "iou a b = iou b a"
  by (simp add: iou_def Let_def max.commute min.commute add.commute)

lemma set_insert_candidate: "set (insert_candidate x ys) = insert x (set ys)"
  by (induction ys) auto

lemma compare_candidates_trans:
  "compare_candidates a b \<le> 0 \<Longrightarrow> compare_candidates b c \<le> 0 \<Longrightarrow> compare_candidates a c \<le> 0"
  by (auto simp: compare_candidates_def split: if_splits)

lemma compare_candidates_total:
  "\<not> compare_candidates a b < 0 \<Longrightarrow> compare_candidates b a \<le> 0"
  by (auto simp: compare_candidates_def split: if_splits)

lemma sorted_insert_candidate:
  "sorted_wrt (\<lambda>a b. compare_candidates a b \<le> 0) ys \<Longrightarrow>
   sorted_wrt (\<lambda>a b. compare_candidates a b \<le> 0) (insert_candidate x ys)"
proof (induction ys)
  case Nil
  then show ?case by simp
next
  case (Cons y ys)
  show ?case
  proof (cases "compare_candidates x y < 0")
    case True
    then have xy: "compare_candidates x y \<le> 0" by simp
    have "\<forall>z \<in> set ys. compare_candidates x z \<le> 0"
      using Cons.prems xy by (auto intro: compare_candidates_trans [of x y])
    with Cons.prems True xy show ?thesis by simp
  next
    case False
    then have "compare_candidates y x \<le> 0" by (rule compare_candidates_total)
    with Cons False show ?thesis
      by (auto simp: set_insert_candidate)
  qed
qed

lemma sort_candidates_fold:
  "sorted_wrt (\<lambda>a b. compare_candidates a b \<le> 0) acc \<Longrightarrow>
   sorted_wrt (\<lambda>a b. compare_candidates a b \<le> 0) (foldl (\<lambda>acc x. insert_candidate x acc) acc cs)"
  by (induction cs arbitrary: acc) (auto simp: sorted_insert_candidate)

lemma sort_candidates_ordered:
  "sorted_wrt (\<lambda>a b. compare_candidates a b \<le> 0) (sort_candidates cs)"
  by (simp add: sort_candidates_def sort_candidates_fold)

lemma suppress_keeps_accepted: "\<exists>ys. suppress acc cs = acc @ ys"
proof (induction cs arbitrary: acc)
  case Nil
  then show ?case by simp
next
  case (Cons c cs)
  show ?case
  proof (cases "find (\<lambda>f. iou (el_rect f) (el_rect c) > 85 / 100) acc")
    case None
    then show ?thesis using Cons.IH [of "acc @ [c]"] by auto
  next
    case (Some d)
    then show ?thesis using Cons.IH [of acc] by simp
  qed
qed

lemma first_seen_wins:
  "sort_candidates cs = c # rest \<Longrightarrow> \<exists>ys. filtered_candidates cs = c # ys"
  using suppress_keeps_accepted [of "[c]" rest]
  by (simp add: filtered_candidates_def)

text \<open>
  C6. The candidates are visited by ascending top and, for equal tops, descending height
  (\<open>sort_candidates_ordered\<close>), and the first one visited is always accepted
  (\<open>first_seen_wins\<close>). The boxes accepted by the greedy suppression are at most as
  many as the candidates, and any two accepted boxes at different positions have an
  intersection over union of at most 0.85.
\<close>

theorem accepted_sections_iou:
  "length (filtered_candidates cs) \<le> length cs \<and>
   (\<forall>i j. i < length (filtered_candidates cs) \<and> j < length (filtered_candidates cs) \<and> i \<noteq> j \<longrightarrow>
      iou (el_rect (filtered_candidates cs ! i)) (el_rect (filtered_candidates cs ! j)) \<le> 85 / 100)"
proof (intro conjI allI impI)
  show "length (filtered_candidates cs) \<le> length cs"
    using length_suppress [of "[]" "sort_candidates cs"]
    by (simp add: filtered_candidates_def length_sort_candidates)
next
  fix i j
  assume h: "i < length (filtered_candidates cs) \<and> j < length (filtered_candidates cs) \<and> i \<noteq> j"
  have sw: "sorted_wrt apart (filtered_candidates cs)"
    unfolding filtered_candidates_def by (rule suppress_apart) simp
  show "iou (el_rect (filtered_candidates cs ! i)) (el_rect (filtered_candidates cs ! j)) \<le> 85 / 100"
  proof (cases "i < j")
    case True
    with h sw have "apart (filtered_candidates cs ! i) (filtered_candidates cs ! j)"
      by (simp add: sorted_wrt_iff_nth_less)
    then show ?thesis by (simp add: apart_def)
  next
    case False
    with h have "j < i" by simp
    with h sw have "apart (filtered_candidates cs ! j) (filtered_candidates cs ! i)"
      by (simp add: sorted_wrt_iff_nth_less)
    then show ?thesis by (simp add: apart_def iou_commute)
  qed
qed

lemma iou_eval: "iou (el_rect box_a) (el_rect box_b) = 150100 / 163950"
  by (simp add: iou_def box_a_def box_b_def rect_right_def rect_bottom_def Let_def)

lemma filtered_example: "filtered_candidates [box_c, box_b, box_a] = [box_a, box_c]"
  by (simp add: filtered_candidates_def sort_candidates_def compare_candidates_def
      iou_def box_a_def box_b_def box_c_def rect_right_def rect_bottom_def Let_def)



theorem accepted_sections_iou_witness:
  "length (filtered_candidates [box_c, box_b, box_a]) \<le> length [box_c, box_b, box_a]
   \<and> filtered_candidates [box_c, box_b, box_a] = [box_a, box_c]
   \<and> iou (el_rect ([box_a, box_c] ! 0)) (el_rect ([box_a, box_c] ! 1)) \<le> 85 / 100"
  using accepted_sections_iou [of "[box_c, box_b, box_a]", THEN conjunct2, rule_format, of 0 1]
    accepted_sections_iou [of "[box_c, box_b, box_a]", THEN conjunct1]
  by (simp add: filtered_example)

text \<open>
  C8 (as the code has it). An element that has not been seen before is dropped exactly
  when its height is below 60, or its width is below the smaller of 320 and 40 percent of
  the viewport width, or its width is below half the viewport width; otherwise it is
  appended to the candidates. In every case it is recorded as seen.
\<close>

theorem pushEl_size_test:
  "ident e \<notin> set seen \<Longrightarrow>
   pushEl vw (Some e) (seen, candidates) =
     (seen @ [ident e],
      if rect_height (el_rect e) < 60
         \<or> rect_width (el_rect e) < min 320 (vw * (4 / 10))
         \<or> rect_width (el_rect e) < vw * (5 / 10)
      then candidates else candidates @ [e])"
  by (simp add: pushEl_def Let_def)

theorem pushEl_size_test_witness:
  "ident wide_el \<notin> set [] \<and> pushEl 1200 (Some wide_el) ([], []) = ([7], [wide_el])"
  using pushEl_size_test [of wide_el "[]" 1200 "[]"]
  by (simp add: wide_el_def)

text \<open>
  The rule with the larger of 320 and 40 percent of the viewport does not describe the code:
  at a viewport of 1440 an element of 600 by 100 meets that minimum and is dropped, and at
  a viewport of 600 an element of 310 by 100 is under that minimum and is kept.
\<close>

theorem pushEl_max_threshold_counterexample:
  "\<not> (rect_height (el_rect wide_el) < 60 \<or> rect_width (el_rect wide_el) < max 320 (1440 * (4 / 10)))
   \<and> snd (pushEl 1440 (Some wide_el) ([], [])) = []
   \<and> (rect_height (el_rect narrow_el) < 60 \<or> rect_width (el_rect narrow_el) < max 320 (600 * (4 / 10)))
   \<and> snd (pushEl 600 (Some narrow_el) ([], [])) = [narrow_el]"
  by (simp add: pushEl_def wide_el_def narrow_el_def Let_def)

section \<open>Layout inference: the split test shadows the grid test\<close>

lemma list_min_Min: "xs \<noteq> [] \<Longrightarrow> list_min xs = Min (set xs)"
  by (cases xs) (simp_all add: list_min_def Min.set_eq_fold [symmetric])

lemma list_max_Max: "xs \<noteq> [] \<Longrightarrow> list_max xs = Max (set xs)"
  by (cases xs) (simp_all add: list_max_def Max.set_eq_fold [symmetric])

lemma split_takes_six:
  assumes "xs \<noteq> []" and "list_max xs - list_min xs > 0" and "length xs \<ge> 6"
  defines "mid \<equiv> list_min xs + (list_max xs - list_min xs) * (5 / 10)"
  shows "filter (\<lambda>x. x < mid) xs \<noteq> [] \<and> filter (\<lambda>x. x \<ge> mid) xs \<noteq> []
         \<and> length (filter (\<lambda>x. x < mid) xs) + length (filter (\<lambda>x. x \<ge> mid) xs) \<ge> 6"
proof -
  have mn: "list_min xs \<in> set xs" using assms(1) by (simp add: list_min_Min)
  have mx: "list_max xs \<in> set xs" using assms(1) by (simp add: list_max_Max)
  have "list_min xs < mid" using assms(2) unfolding mid_def by simp
  with mn have l: "filter (\<lambda>x. x < mid) xs \<noteq> []" by (auto simp: filter_empty_conv)
  have "list_max xs \<ge> mid" using assms(2) unfolding mid_def by (simp add: field_simps)
  with mx have r: "filter (\<lambda>x. x \<ge> mid) xs \<noteq> []" by (auto simp: filter_empty_conv)
  have "length (filter (\<lambda>x. x < mid) xs) + length (filter (\<lambda>x. \<not> x < mid) xs) = length xs"
    by (rule sum_length_filter_compl)
  then have "length (filter (\<lambda>x. x < mid) xs) + length (filter (\<lambda>x. x \<ge> mid) xs) = length xs"
    by (simp add: not_less)
  with l r assms(3) show ?thesis by simp
qed


lemma grid_never_inferred: "infer_layout_type p \<noteq> ''grid''"
proof (cases p)
  case None
  then show ?thesis by (simp add: infer_layout_type_def)
next
  case (Some nodes)
  define xs where "xs = map fst (centers nodes)"
  show ?thesis
  proof (cases "xs \<noteq> [] \<and> list_max xs - list_min xs > 0 \<and> length xs \<ge> 6")
    case True
    then show ?thesis
      using split_takes_six [of xs] Some
      by (simp add: infer_layout_type_def Let_def xs_def)
  next
    case False
    then show ?thesis using Some
      by (auto simp add: infer_layout_type_def Let_def xs_def not_less)
  qed
qed


text \<open>
  C3. Six atoms of positive size in three 80-pixel column buckets and two row buckets
  should be laid out as a grid. The split test that runs first holds for every section
  with at least six sized atoms and a positive horizontal span, so the answer is
  \<open>split\<close>; by \<open>grid_never_inferred\<close> no input at all is classified as a grid.
\<close>

theorem grid_of_six_is_split:
  "length (centers grid_nodes) = 6
   \<and> bucket_count 80 (map fst (centers grid_nodes)) = 3
   \<and> bucket_count 80 (map snd (centers grid_nodes)) = 2
   \<and> infer_layout_type (Some grid_nodes) = ''split''"
  by (simp add: infer_layout_type_def grid_nodes_def card_at_def bucket_count_def py_round_def
      list_min_def list_max_def Let_def)

section \<open>Design tokens\<close>

lemmas text_eval = u_def py_strip_def py_isspace_def py_lower_def lower_cp_def startswith_def
  endswith_def lstrip_chars_def strip_chars_def py_replace_def py_split_def py_int_def
  digit_val_def is_digit_def

lemma white_hsl: "hex_to_hsl fl (u ''#ffffff'') = Inr (Some (u ''0 0% 100%''))"
  by (simp add: hex_to_hsl_def text_eval rgb_channels_to_hsl_def hsl_string_def py_round_def
      show_eval bind_def Let_def)

lemma slate_hsl: "hex_to_hsl fl (u ''#0f172a'') = Inr (Some (u ''222 47% 11%''))"
  by (simp add: hex_to_hsl_def text_eval rgb_channels_to_hsl_def hsl_string_def py_round_def
      show_eval bind_def Let_def)

lemma bad_hex: "hex_to_hsl fl (u ''#gggggg'') = Inl ValueError"
  by (simp add: hex_to_hsl_def text_eval Let_def)

lemma parse_default_primary: "parse_hsl plain_float (u ''221 83% 53%'') = Inr (Some (221, 83, 53))"
  by (simp add: parse_hsl_def text_eval plain_float_def int_of_float_def Let_def)

lemma u_not_Nil: "u (c # cs) \<noteq> []"
  by (simp add: u_def)

lemma no_px: "extract_px_values fl [] = Inr []"
  by (simp add: extract_px_values_def bind_def)

lemma no_spacing: "infer_spacing_scale fl [] [] = Inr None"
  by (simp add: infer_spacing_scale_def no_px bind_def)

text \<open>
  C4. Token extraction is meant to fall back to a default for every colour it cannot
  parse, as \<open>_rgb_to_hsl\<close> does by catching the \<open>ValueError\<close>. The hex branch of
  \<open>_hex_to_hsl\<close> has no such guard: for samples whose only entry is
  \<open>button_bg = "#gggggg"\<close> the conversion of the primary colour raises
  \<open>ValueError\<close> and \<open>build_theme_tokens\<close> returns no tokens at all.
\<close>

theorem build_theme_tokens_bad_hex_raises:
  "build_theme_tokens fl (Some (no_samples\<lparr>button_bg := u ''#gggggg''\<rparr>)) = Inl ValueError"
  by (simp add: build_theme_tokens_def no_samples_def hsl_or_def white_hsl slate_hsl bad_hex
      no_spacing top_count_value_def top_n_values_def sorted_desc_def or_else_def opt_or_def
      u_not_Nil bind_def Let_def)


lemma default_theme_colors:
  "map_sum id (\<lambda>th. (tk_colors th, tk_typography th)) (build_theme_tokens plain_float (Some no_samples))
   = Inr (tk_colors default_tokens, tk_typography default_tokens)"
  by (simp add: build_theme_tokens_def no_samples_def default_tokens_def hsl_or_def
      hex_to_hsl_def rgb_channels_to_hsl_def hsl_string_def py_round_def show_eval
      brand_profile_def parse_hsl_def plain_float_def int_of_float_def text_eval
      pick_vivid_color_def tokens.defs no_spacing top_count_value_def top_n_values_def sorted_desc_def or_else_def opt_or_def
      bind_def Let_def)

text \<open>
  C9 (as the code has it). Whenever the primary and the background colour of the tokens
  parse (a colour that is no HSL triple counts as (220, 60, 50) for the primary and as
  (0, 0, 100) for the background), the brand profile is produced, its mood is vivid exactly
  when the primary saturation is at least 60 and muted otherwise, its tone is bright exactly
  when the primary lightness is at least 60 and deep otherwise, and its contrast is high
  exactly when the lightness of the background and the lightness of the primary colour
  differ by at least 50, and low otherwise.
\<close>

theorem brand_profile_thresholds:
  assumes "parse_hsl fl (primary (tk_colors tk)) = Inr p"
    and "parse_hsl fl (background (tk_colors tk)) = Inr bg"
  defines "pr \<equiv> (case p of None \<Rightarrow> (220, 60, 50) | Some t \<Rightarrow> t)"
    and "bk \<equiv> (case bg of None \<Rightarrow> (0, 0, 100) | Some t \<Rightarrow> t)"
  shows "\<exists>br. brand_profile fl tk = Inr br
           \<and> (color_mood br = ''vivid'' \<longleftrightarrow> hsl_sat pr \<ge> 60)
           \<and> (color_mood br = ''muted'' \<longleftrightarrow> \<not> hsl_sat pr \<ge> 60)
           \<and> (color_tone br = ''bright'' \<longleftrightarrow> hsl_light pr \<ge> 60)
           \<and> (color_tone br = ''deep'' \<longleftrightarrow> \<not> hsl_light pr \<ge> 60)
           \<and> (contrast br = ''high'' \<longleftrightarrow> \<bar>hsl_light bk - hsl_light pr\<bar> \<ge> 50)
           \<and> (contrast br = ''low'' \<longleftrightarrow> \<not> \<bar>hsl_light bk - hsl_light pr\<bar> \<ge> 50)"
  using assms(1,2)
  by (simp add: brand_profile_def bind_def Let_def pr_def bk_def hsl_sat_def hsl_light_def)

theorem brand_profile_thresholds_witness:
  "parse_hsl plain_float (primary (tk_colors default_tokens)) = Inr (Some (221, 83, 53))
   \<and> parse_hsl plain_float (background (tk_colors default_tokens)) = Inr (Some (0, 0, 100))
   \<and> (\<exists>br. brand_profile plain_float default_tokens = Inr br
          \<and> color_mood br = ''vivid'' \<and> color_tone br = ''deep'' \<and> contrast br = ''low'')"
proof -
  have p: "parse_hsl plain_float (primary (tk_colors default_tokens)) = Inr (Some (221, 83, 53))"
    by (simp add: default_tokens_def parse_hsl_def text_eval plain_float_def int_of_float_def Let_def)
  have b: "parse_hsl plain_float (background (tk_colors default_tokens)) = Inr (Some (0, 0, 100))"
    by (simp add: default_tokens_def parse_hsl_def text_eval plain_float_def int_of_float_def Let_def)
  show ?thesis
    using brand_profile_thresholds [OF p b] p b
    by (auto simp: hsl_sat_def hsl_light_def)
qed

text \<open>
  The contrast is not taken between text and background: with the default tokens the
  foreground lightness 11 and the background lightness 100 differ by 89, and the contrast
  is low, because the primary lightness 53 is what the background is compared with.
\<close>

theorem brand_contrast_counterexample:
  "parse_hsl plain_float (foreground (tk_colors default_tokens)) = Inr (Some (222, 47, 11))
   \<and> parse_hsl plain_float (background (tk_colors default_tokens)) = Inr (Some (0, 0, 100))
   \<and> \<bar>100 - 11\<bar> \<ge> (50 :: int)
   \<and> brand_profile plain_float default_tokens
       = Inr \<lparr> color_mood = ''vivid'', color_tone = ''deep'', contrast = ''low'',
                brand_typography = ''sans'' \<rparr>"
  by (simp add: default_tokens_def brand_profile_def parse_hsl_def text_eval plain_float_def
      int_of_float_def bind_def Let_def)

section \<open>The Composer: protected types, the logo scenario, the order of candidates\<close>

lemmas re_eval = first_prefix_def url_scheme_match_def currency_match_def price_match_def
  classifier_price_words_def has_price_pattern_of_def stats_match_def has_stats_pattern_of_def

lemmas scorer_defs = score_hero_def score_logo_cloud_def score_testimonials_def score_ratings_def
  score_case_studies_def score_feature_grid_def score_cards_grid_def score_feature_media_def
  score_steps_def score_stats_def score_integrations_def score_comparison_def
  score_use_cases_def score_pricing_def score_plan_compare_def score_faq_def score_support_def
  score_contact_def score_footer_def score_navbar_def score_announcement_def


lemma footer_links_scores:
  "map (\<lambda>c. (cand_type c, cand_score c)) (all_candidates (no_signals\<lparr> text_len := 18 \<rparr>)) =
     [(''HeroCentered.v1'', 0), (''LogoCloud.v1'', 10), (''TestimonialsGrid.v1'', 0),
      (''RatingsSummary.v1'', 0), (''CaseStudies.v1'', 0), (''FeatureGrid.v1'', 0),
      (''CardsGrid.v1'', 0), (''FeatureWithMedia.v1'', 0), (''StepsTimeline.v1'', 0),
      (''StatsKPI.v1'', 0), (''IntegrationsGrid.v1'', 0), (''ComparisonTable.v1'', 0),
      (''UseCases.v1'', 0), (''PricingCards.v1'', 0), (''PlanComparison.v1'', 0),
      (''FAQAccordion.v1'', 0), (''SupportLinks.v1'', 0), (''ContactSection.v1'', 0),
      (''Footer.v1'', 0), (''Navbar.v1'', 0), (''AnnouncementBar.v1'', 10)]"
  by (simp add: all_candidates_def add_candidate_def scorer_defs no_signals_def score_eval Let_def)

lemma classify_candidates:
  "cls_candidates (fst (classify_section g layout ctx)) =
     take 5 (sorted_desc cand_score (all_candidates (build_signals g layout ctx)))"
  by (simp add: classify_section_def Let_def)




lemma logo_blob:
  "atoms_text_blob logo_section = u ''trusted by teams acme globex initech umbrella''"
  by (simp add: atoms_text_blob_def logo_section_def words_atom_def logo_image_def join_def
      text_eval Let_def)

lemma logo_no_pricing: "atoms_pricing_candidate logo_section = (False, 0)"
  unfolding atoms_pricing_candidate_def logo_blob
  by (simp add: atoms_price_words_def re_eval text_eval Let_def)

lemma logo_no_faq: "atoms_faq_candidate logo_section = (False, 0)"
  unfolding atoms_faq_candidate_def logo_blob
  by (simp add: py_count_def text_eval Let_def)

lemma logo_no_stats: "atoms_stats_candidate logo_section = (False, 0)"
  unfolding atoms_stats_candidate_def logo_blob
  by (simp add: re_eval text_eval Let_def)

lemma logo_no_steps: "atoms_steps_candidate logo_section = (False, 0)"
  unfolding atoms_steps_candidate_def logo_blob
  by (simp add: logo_section_def words_atom_def logo_image_def step_match_def text_eval Let_def)

lemma atom_stage_protected:
  assumes "sec_type section \<in> {''Footer.v1'', ''Navbar.v1'', ''AnnouncementBar.v1''}"
  shows "sec_type (atom_stage available_blocks index atoms_sec section) = sec_type section"
  using assms
  by (auto simp: atom_stage_def Let_def split: option.splits prod.splits)

lemma atom_stage_merge:
  assumes "suggest_block_from_atoms sec = (Some suggestion, s_score, Some family)"
    and "suggestion \<in> set available_blocks" and "family \<noteq> []"
  shows "sec_candidates (atom_stage available_blocks index (Some sec) section) =
           \<lparr> cand_type = suggestion, cand_score = py_trunc (s_score * 100),
             cand_reasons = [''atoms_rule:'' @ show_int (py_trunc (s_score * 100))],
             cand_family = family \<rparr>
           # take 4 (filter (\<lambda>c. cand_type c \<noteq> suggestion) (sec_candidates section))"
  using assms by (simp add: atom_stage_def Let_def)

lemma atom_stage_below_threshold:
  assumes "suggest_block_from_atoms sec = (suggestion, s_score, family)"
    and "py_trunc (s_score * 100) < 80"
  shows "sec_type (atom_stage available_blocks index (Some sec) section) = sec_type section"
  using assms by (cases suggestion) (simp_all add: atom_stage_def Let_def)

lemma classifier_stage_below_threshold:
  assumes "sec_type section \<notin> {''Footer.v1'', ''Navbar.v1'', ''AnnouncementBar.v1''}"
    and "\<not> (''Footer.v1'' \<in> set available_blocks \<and> py_lower (py_strip (sec_source section)) = u ''footer'')"
    and "cls_candidates (fst (classify_section g layout ctx)) \<noteq> []"
    and "cand_score (hd (cls_candidates (fst (classify_section g layout ctx)))) < 60"
  shows "sec_type (classifier_stage g available_blocks layout ctx section) = sec_type section"
  using assms by (auto simp: classifier_stage_def Let_def split: list.splits)






lemma logo_stats:
  "stats logo_section =
     \<lparr> stat_images = 6, stat_text = 4, stat_headings = 1, stat_links = 0, stat_buttons = 0 \<rparr>"
  by (simp add: logo_section_def)

lemma logo_rule: "atoms_logo_candidate logo_section = (True, 65 / 100)"
  by (simp add: atoms_logo_candidate_def logo_stats Let_def)

lemma logo_suggestion:
  "suggest_block_from_atoms logo_section = (Some ''LogoCloud.v1'', 65 / 100, Some ''Proof'')"
  by (simp add: suggest_block_from_atoms_def logo_no_pricing logo_no_faq logo_no_stats
      logo_no_steps logo_rule)

lemma logo_signals:
  "build_signals initial_globals logo_layout logo_ctx =
     no_signals\<lparr> text_len := 45, section_height := 300, grid_like := True, has_media := True, two_column_like := True,
                 img_count := 6 \<rparr>"
  by (simp add: build_signals_def initial_globals_def logo_layout_def logo_ctx_def
      no_signals_def text_eval re_eval Let_def)

lemma logo_top5:
  "map (\<lambda>c. (cand_type c, cand_score c))
     (cls_candidates (fst (classify_section initial_globals logo_layout logo_ctx))) =
     [(''LogoCloud.v1'', 35), (''FeatureWithMedia.v1'', 35), (''CardsGrid.v1'', 30),
      (''FeatureGrid.v1'', 25), (''TestimonialsGrid.v1'', 15)]"
  unfolding classify_candidates logo_signals
  by (simp add: all_candidates_def add_candidate_def scorer_defs no_signals_def score_eval
      sorted_desc_def Let_def)

text \<open>
  C7 (as the code has it). For a section whose atom statistics are images 6, headings 1,
  text 4, buttons 0 and links 0, the logo rule fires with confidence 0.65, since the
  confidence 0.85 needs at most two text atoms. When none of the pricing, FAQ, stats and
  steps rules fires and \<open>LogoCloud.v1\<close> is an available block, the suggestion is
  \<open>LogoCloud.v1\<close> at 0.65; the Composer puts it with score 65 at the head of the
  candidates and leaves the type of the section as it was, 65 being below the threshold
  of 80.
\<close>

theorem logo_rule_scenario:
  assumes "stats sec = \<lparr> stat_images = 6, stat_text = 4, stat_headings = 1, stat_links = 0,
                          stat_buttons = 0 \<rparr>"
    and "\<not> fst (atoms_pricing_candidate sec)" and "\<not> fst (atoms_faq_candidate sec)"
    and "\<not> fst (atoms_stats_candidate sec)" and "\<not> fst (atoms_steps_candidate sec)"
    and "''LogoCloud.v1'' \<in> set available_blocks"
  shows "atoms_logo_candidate sec = (True, 65 / 100)
       \<and> suggest_block_from_atoms sec = (Some ''LogoCloud.v1'', 65 / 100, Some ''Proof'')
       \<and> sec_type (atom_stage available_blocks index (Some sec) section) = sec_type section
       \<and> hd (sec_candidates (atom_stage available_blocks index (Some sec) section))
           = \<lparr> cand_type = ''LogoCloud.v1'', cand_score = 65, cand_reasons = [''atoms_rule:65''],
               cand_family = ''Proof'' \<rparr>"
proof -
  have l: "atoms_logo_candidate sec = (True, 65 / 100)"
    using assms(1) by (simp add: atoms_logo_candidate_def Let_def)
  have s: "suggest_block_from_atoms sec = (Some ''LogoCloud.v1'', 65 / 100, Some ''Proof'')"
    using assms(2-5) l by (simp add: suggest_block_from_atoms_def)
  have t: "py_trunc 65 = 65" by (simp add: py_trunc_def)
  have ty: "sec_type (atom_stage available_blocks index (Some sec) section) = sec_type section"
    using atom_stage_below_threshold [OF s, of available_blocks index "section"] by (simp add: t)
  have h: "hd (sec_candidates (atom_stage available_blocks index (Some sec) section))
           = \<lparr> cand_type = ''LogoCloud.v1'', cand_score = 65, cand_reasons = [''atoms_rule:65''],
               cand_family = ''Proof'' \<rparr>"
    using atom_stage_merge [OF s assms(6), of index "section"] by (simp add: t show_eval)
  from l s ty h show ?thesis by simp
qed

theorem logo_rule_scenario_witness:
  "stats logo_section = \<lparr> stat_images = 6, stat_text = 4, stat_headings = 1, stat_links = 0,
                          stat_buttons = 0 \<rparr>
   \<and> \<not> fst (atoms_pricing_candidate logo_section) \<and> \<not> fst (atoms_faq_candidate logo_section)
   \<and> \<not> fst (atoms_stats_candidate logo_section) \<and> \<not> fst (atoms_steps_candidate logo_section)
   \<and> ''LogoCloud.v1'' \<in> set all_blocks
   \<and> atoms_logo_candidate logo_section = (True, 65 / 100)
   \<and> suggest_block_from_atoms logo_section = (Some ''LogoCloud.v1'', 65 / 100, Some ''Proof'')
   \<and> sec_type (atom_stage all_blocks 2 (Some logo_section) logo_initial) = ''FeatureGrid.v1''"
proof -
  have a: "''LogoCloud.v1'' \<in> set all_blocks" by (simp add: all_blocks_def)
  have n: "\<not> fst (atoms_pricing_candidate logo_section)" "\<not> fst (atoms_faq_candidate logo_section)"
    "\<not> fst (atoms_stats_candidate logo_section)" "\<not> fst (atoms_steps_candidate logo_section)"
    by (simp_all add: logo_no_pricing logo_no_faq logo_no_stats logo_no_steps)
  have i: "sec_type logo_initial = ''FeatureGrid.v1''" by (simp add: logo_initial_def)
  show ?thesis
    using logo_rule_scenario [OF logo_stats n a, of 2 logo_initial] logo_stats n a i
    by simp
qed

lemma logo_classifier_stage:
  "sec_type (classifier_stage initial_globals all_blocks logo_layout logo_ctx logo_initial)
     = ''FeatureGrid.v1''"
proof -
  let ?cs = "cls_candidates (fst (classify_section initial_globals logo_layout logo_ctx))"
  have ne: "?cs \<noteq> []" using logo_top5 by auto
  have top: "cand_score (hd ?cs) = 35" using logo_top5 by (cases ?cs) auto
  have "sec_type (classifier_stage initial_globals all_blocks logo_layout logo_ctx logo_initial)
          = sec_type logo_initial"
    by (rule classifier_stage_below_threshold) (simp_all add: logo_initial_def ne top text_eval)
  then show ?thesis by (simp add: logo_initial_def)
qed

text \<open>
  The scenario as stated fails on a logo strip with these statistics: the confidence is
  0.65, not 0.85 or more, and a section typed \<open>FeatureGrid.v1\<close>, whose classifier
  candidate scores 25, keeps that type.
\<close>

theorem logo_not_selected_counterexample:
  "stats logo_section = \<lparr> stat_images = 6, stat_text = 4, stat_headings = 1, stat_links = 0,
                          stat_buttons = 0 \<rparr>
   \<and> atoms_logo_candidate logo_section = (True, 65 / 100)
   \<and> \<not> (65 / 100 :: real) \<ge> 85 / 100
   \<and> map (\<lambda>c. (cand_type c, cand_score c))
         (cls_candidates (fst (classify_section initial_globals logo_layout logo_ctx)))
       = [(''LogoCloud.v1'', 35), (''FeatureWithMedia.v1'', 35), (''CardsGrid.v1'', 30),
          (''FeatureGrid.v1'', 25), (''TestimonialsGrid.v1'', 15)]
   \<and> sec_type (resolve_section initial_globals all_blocks 2 logo_layout logo_ctx
                  (Some logo_section) logo_initial) = ''FeatureGrid.v1''"
proof -
  have "sec_type (resolve_section initial_globals all_blocks 2 logo_layout logo_ctx
                  (Some logo_section) logo_initial)
        = sec_type (classifier_stage initial_globals all_blocks logo_layout logo_ctx logo_initial)"
    unfolding resolve_section_def
    by (rule atom_stage_below_threshold [OF logo_suggestion]) (simp add: py_trunc_def)
  then show ?thesis
    by (simp add: logo_stats logo_rule logo_top5 logo_classifier_stage)
qed





end
